theory Spec2Isabelle
  imports Complex_Main
begin

section \<open>JavaScript values\<close>

text \<open>
  The validators of the edge function take \<^verbatim>\<open>unknown\<close>: whatever \<^verbatim>\<open>JSON.parse\<close> (or
  \<^verbatim>\<open>req.json()\<close>) produced, or \<^verbatim>\<open>undefined\<close> for a property that is missing.
  A number is a double that came out of a JSON text: a finite value (a rational), or an
  infinity for a literal that overflows (\<^verbatim>\<open>1e999\<close>); \<^verbatim>\<open>NaN\<close> has no JSON literal.
  A string is a list of code units, one \<^typ>\<open>char\<close> each (the Latin-1 range).
  An object is an association list, read with \<^const>\<open>map_of\<close>.
\<close>

datatype jsnum = Finite rat | PosInf | NegInf

datatype jsval =
    JUndefined
  | JNull
  | JBool bool
  | JNum jsnum
  | JStr string
  | JArr "jsval list"
  | JObj "(string \<times> jsval) list"

text \<open>\<^verbatim>\<open>n < k\<close> for a number \<open>n\<close> and a finite constant \<open>k\<close>.\<close>

fun num_lt :: "jsnum \<Rightarrow> rat \<Rightarrow> bool" where
  "num_lt (Finite r) k = (r < k)"
| "num_lt PosInf k = False"
| "num_lt NegInf k = True"

text \<open>\<^verbatim>\<open>Number.isInteger\<close>, which the source never calls; used to state what is not checked.\<close>

fun is_integer :: "jsnum \<Rightarrow> bool" where
  "is_integer (Finite r) = (r = of_int (floor r))"
| "is_integer PosInf = False"
| "is_integer NegInf = False"

datatype jstype = TUndefined | TObject | TBoolean | TNumber | TString

text \<open>\<^verbatim>\<open>typeof v\<close>: \<^verbatim>\<open>null\<close> and arrays are \<^verbatim>\<open>'object'\<close>.\<close>

fun typeof :: "jsval \<Rightarrow> jstype" where
  "typeof JUndefined = TUndefined"
| "typeof JNull = TObject"
| "typeof (JBool b) = TBoolean"
| "typeof (JNum n) = TNumber"
| "typeof (JStr s) = TString"
| "typeof (JArr xs) = TObject"
| "typeof (JObj kvs) = TObject"

text \<open>\<^verbatim>\<open>!v\<close>: the falsy values.\<close>

fun falsy :: "jsval \<Rightarrow> bool" where
  "falsy JUndefined = True"
| "falsy JNull = True"
| "falsy (JBool b) = (\<not> b)"
| "falsy (JNum n) = (n = Finite 0)"
| "falsy (JStr s) = (s = [])"
| "falsy (JArr xs) = False"
| "falsy (JObj kvs) = False"

text \<open>
  \<^verbatim>\<open>v.k\<close> for a value cast to \<^verbatim>\<open>Record<string, unknown>\<close> and one of the property
  names the source reads (none of them is a built-in property of arrays, strings, numbers
  or booleans): the entry of an object, \<^verbatim>\<open>undefined\<close> on anything else. Every use is
  behind a guard that has already excluded \<^verbatim>\<open>null\<close> and \<^verbatim>\<open>undefined\<close>.
\<close>

fun getProp :: "jsval \<Rightarrow> string \<Rightarrow> jsval" where
  "getProp (JObj kvs) k = (case map_of kvs k of None \<Rightarrow> JUndefined | Some v \<Rightarrow> v)"
| "getProp v k = JUndefined"

fun isArray :: "jsval \<Rightarrow> bool" where
  "isArray (JArr xs) = True"
| "isArray v = False"

fun elems :: "jsval \<Rightarrow> jsval list" where
  "elems (JArr xs) = xs"
| "elems v = []"

text \<open>\<^verbatim>\<open>list.includes(v)\<close> for a list of string literals.\<close>

fun arr_includes :: "string list \<Rightarrow> jsval \<Rightarrow> bool" where
  "arr_includes xs (JStr s) = (s \<in> set xs)"
| "arr_includes xs v = False"

fun str_of :: "jsval \<Rightarrow> string" where
  "str_of (JStr s) = s"
| "str_of v = []"

section \<open>Strings\<close>

text \<open>The white space and line terminators that \<^verbatim>\<open>String.prototype.trim\<close> removes.\<close>

definition is_ws :: "char \<Rightarrow> bool" where
  "is_ws c = (of_char c \<in> {9, 10, 11, 12, 13, 32, 160 :: nat})"

definition trim :: "string \<Rightarrow> string" where
  "trim s = rev (dropWhile is_ws (rev (dropWhile is_ws s)))"

definition startsWith :: "string \<Rightarrow> string \<Rightarrow> bool" where
  "startsWith s p = (take (length p) s = p)"

definition endsWith :: "string \<Rightarrow> string \<Rightarrow> bool" where
  "endsWith s p = (length p \<le> length s \<and> drop (length s - length p) s = p)"

text \<open>\<^verbatim>\<open>xs.join(sep)\<close>.\<close>

fun join :: "string \<Rightarrow> string list \<Rightarrow> string" where
  "join sep [] = []"
| "join sep [x] = x"
| "join sep (x # y # ys) = x @ sep @ join sep (y # ys)"

text \<open>A non-negative integer in a template literal, \<^verbatim>\<open>`${index}`\<close>.\<close>

fun string_of_nat :: "nat \<Rightarrow> string" where
  "string_of_nat n =
     (if n < 10 then [char_of (48 + n)]
      else string_of_nat (n div 10) @ [char_of (48 + n mod 10)])"

section \<open>Errors\<close>

text \<open>
  \<^verbatim>\<open>class ValidationError extends Error\<close> carries the field; every other throw of the
  source is a plain \<^verbatim>\<open>Error\<close> (or a \<^verbatim>\<open>TypeError\<close>/\<^verbatim>\<open>SyntaxError\<close> of the
  platform), which the handler tells apart only by \<^verbatim>\<open>instanceof ValidationError\<close>.
\<close>

datatype error =
    ValidationError string string
  | OtherError string

fun message :: "error \<Rightarrow> string" where
  "message (ValidationError field m) = ''Validation error on '' @ [CHR 0x27] @ field @ [CHR 0x27] @ '': '' @ m"
| "message (OtherError m) = m"

fun isValidationError :: "error \<Rightarrow> bool" where
  "isValidationError (ValidationError field m) = True"
| "isValidationError (OtherError m) = False"

fun error_field :: "error \<Rightarrow> string option" where
  "error_field (ValidationError field m) = Some field"
| "error_field (OtherError m) = None"

section \<open>Entities\<close>

record GoalInput =
  goal :: string
  priority :: string
  timeAvailable :: "string option"

record GoalAnalysis =
  summary :: string
  category :: string
  complexity :: string

text \<open>
  \<^verbatim>\<open>dependencies\<close> is declared \<^verbatim>\<open>string[]\<close> but only \<^verbatim>\<open>Array.isArray\<close> is checked
  before the cast, so the elements are whatever was parsed.
\<close>

record ActionStep =
  stepNumber :: jsnum
  step_title :: string
  description :: string
  estimatedTime :: string
  dependencies :: "jsval list"

record Risk =
  risk_id :: string
  risk_title :: string
  severity :: string
  mitigation :: string

record NextAction =
  action :: string
  reasoning :: string
  timeframe :: string

record AgentResponse =
  goalAnalysis :: GoalAnalysis
  actionSteps :: "ActionStep list"
  totalEstimatedTime :: string
  risks :: "Risk list"
  nextImmediateAction :: NextAction

section \<open>Validators\<close>

definition validPriorities :: "string list" where
  "validPriorities = [''low'', ''medium'', ''high'', ''critical'']"

definition validComplexities :: "string list" where
  "validComplexities = [''simple'', ''moderate'', ''complex'']"

definition validSeverities :: "string list" where
  "validSeverities = [''low'', ''medium'', ''high'']"

definition validateInput :: "jsval \<Rightarrow> error + GoalInput" where
  "validateInput body =
     (if falsy body \<or> typeof body \<noteq> TObject then
        Inl (ValidationError ''body'' ''Invalid request body'')
      else if typeof (getProp body ''goal'') \<noteq> TString
              \<or> length (trim (str_of (getProp body ''goal''))) = 0 then
        Inl (ValidationError ''goal'' ''Goal is required and must be a non-empty string'')
      else if length (str_of (getProp body ''goal'')) > 1000 then
        Inl (ValidationError ''goal'' ''Goal must be less than 1000 characters'')
      else if \<not> arr_includes validPriorities (getProp body ''priority'') then
        Inl (ValidationError ''priority'' (''Must be one of: '' @ join '', '' validPriorities))
      else if getProp body ''timeAvailable'' \<noteq> JUndefined
              \<and> typeof (getProp body ''timeAvailable'') \<noteq> TString then
        Inl (ValidationError ''timeAvailable'' ''Must be a string'')
      else
        Inr \<lparr> goal = trim (str_of (getProp body ''goal'')),
              priority = str_of (getProp body ''priority''),
              timeAvailable = (case getProp body ''timeAvailable'' of
                                 JStr s \<Rightarrow> Some s | _ \<Rightarrow> None) \<rparr>)"

definition validateGoalAnalysis :: "jsval \<Rightarrow> error + GoalAnalysis" where
  "validateGoalAnalysis data =
     (if falsy data \<or> typeof data \<noteq> TObject then
        Inl (ValidationError ''goalAnalysis'' ''Must be an object'')
      else if typeof (getProp data ''summary'') \<noteq> TString
              \<or> length (str_of (getProp data ''summary'')) < 10 then
        Inl (ValidationError ''goalAnalysis.summary'' ''Must be a meaningful summary'')
      else if typeof (getProp data ''category'') \<noteq> TString
              \<or> length (str_of (getProp data ''category'')) = 0 then
        Inl (ValidationError ''goalAnalysis.category'' ''Category is required'')
      else if \<not> arr_includes validComplexities (getProp data ''complexity'') then
        Inl (ValidationError ''goalAnalysis.complexity''
               (''Must be one of: '' @ join '', '' validComplexities))
      else
        Inr \<lparr> summary = str_of (getProp data ''summary''),
              category = str_of (getProp data ''category''),
              complexity = str_of (getProp data ''complexity'') \<rparr>)"

definition step_path :: "nat \<Rightarrow> string" where
  "step_path index = ''actionSteps['' @ string_of_nat index @ '']''"

definition risk_path :: "nat \<Rightarrow> string" where
  "risk_path index = ''risks['' @ string_of_nat index @ '']''"

definition validateActionStep :: "jsval \<Rightarrow> nat \<Rightarrow> error + ActionStep" where
  "validateActionStep step index =
     (if falsy step \<or> typeof step \<noteq> TObject then
        Inl (ValidationError (step_path index) ''Must be an object'')
      else if typeof (getProp step ''stepNumber'') \<noteq> TNumber
              \<or> (case getProp step ''stepNumber'' of JNum n \<Rightarrow> num_lt n 1 | _ \<Rightarrow> False) then
        Inl (ValidationError (step_path index @ ''.stepNumber'') ''Must be a positive number'')
      else if typeof (getProp step ''title'') \<noteq> TString
              \<or> length (str_of (getProp step ''title'')) = 0 then
        Inl (ValidationError (step_path index @ ''.title'') ''Title is required'')
      else if typeof (getProp step ''description'') \<noteq> TString
              \<or> length (str_of (getProp step ''description'')) = 0 then
        Inl (ValidationError (step_path index @ ''.description'') ''Description is required'')
      else if typeof (getProp step ''estimatedTime'') \<noteq> TString then
        Inl (ValidationError (step_path index @ ''.estimatedTime'') ''Estimated time is required'')
      else if \<not> isArray (getProp step ''dependencies'') then
        Inl (ValidationError (step_path index @ ''.dependencies'') ''Dependencies must be an array'')
      else
        Inr \<lparr> stepNumber = (case getProp step ''stepNumber'' of JNum n \<Rightarrow> n | _ \<Rightarrow> Finite 0),
              step_title = str_of (getProp step ''title''),
              description = str_of (getProp step ''description''),
              estimatedTime = str_of (getProp step ''estimatedTime''),
              dependencies = elems (getProp step ''dependencies'') \<rparr>)"

definition validateRisk :: "jsval \<Rightarrow> nat \<Rightarrow> error + Risk" where
  "validateRisk risk index =
     (if falsy risk \<or> typeof risk \<noteq> TObject then
        Inl (ValidationError (risk_path index) ''Must be an object'')
      else if typeof (getProp risk ''id'') \<noteq> TString then
        Inl (ValidationError (risk_path index @ ''.id'') ''ID is required'')
      else if typeof (getProp risk ''title'') \<noteq> TString
              \<or> length (str_of (getProp risk ''title'')) = 0 then
        Inl (ValidationError (risk_path index @ ''.title'') ''Title is required'')
      else if \<not> arr_includes validSeverities (getProp risk ''severity'') then
        Inl (ValidationError (risk_path index @ ''.severity'')
               (''Must be one of: '' @ join '', '' validSeverities))
      else if typeof (getProp risk ''mitigation'') \<noteq> TString
              \<or> length (str_of (getProp risk ''mitigation'')) = 0 then
        Inl (ValidationError (risk_path index @ ''.mitigation'') ''Mitigation strategy is required'')
      else
        Inr \<lparr> risk_id = str_of (getProp risk ''id''),
              risk_title = str_of (getProp risk ''title''),
              severity = str_of (getProp risk ''severity''),
              mitigation = str_of (getProp risk ''mitigation'') \<rparr>)"

definition validateNextAction :: "jsval \<Rightarrow> error + NextAction" where
  "validateNextAction data =
     (if falsy data \<or> typeof data \<noteq> TObject then
        Inl (ValidationError ''nextImmediateAction'' ''Must be an object'')
      else if typeof (getProp data ''action'') \<noteq> TString
              \<or> length (str_of (getProp data ''action'')) = 0 then
        Inl (ValidationError ''nextImmediateAction.action'' ''Action is required'')
      else if typeof (getProp data ''reasoning'') \<noteq> TString
              \<or> length (str_of (getProp data ''reasoning'')) = 0 then
        Inl (ValidationError ''nextImmediateAction.reasoning'' ''Reasoning is required'')
      else if typeof (getProp data ''timeframe'') \<noteq> TString
              \<or> length (str_of (getProp data ''timeframe'')) = 0 then
        Inl (ValidationError ''nextImmediateAction.timeframe'' ''Timeframe is required'')
      else
        Inr \<lparr> action = str_of (getProp data ''action''),
              reasoning = str_of (getProp data ''reasoning''),
              timeframe = str_of (getProp data ''timeframe'') \<rparr>)"

text \<open>
  \<^verbatim>\<open>xs.map((x, i) => validate(x, i))\<close>: the elements in order, each with its index; the
  first throw ends the map.
\<close>

fun map_indexed :: "(jsval \<Rightarrow> nat \<Rightarrow> error + 'a) \<Rightarrow> jsval list \<Rightarrow> nat \<Rightarrow> error + 'a list" where
  "map_indexed f [] i = Inr []"
| "map_indexed f (x # xs) i =
     (case f x i of
        Inl e \<Rightarrow> Inl e
      | Inr y \<Rightarrow> (case map_indexed f xs (Suc i) of
                    Inl e \<Rightarrow> Inl e
                  | Inr ys \<Rightarrow> Inr (y # ys)))"

definition validateFullResponse :: "jsval \<Rightarrow> error + AgentResponse" where
  "validateFullResponse data =
     (if falsy data \<or> typeof data \<noteq> TObject then
        Inl (ValidationError ''response'' ''Invalid response structure'')
      else
        (case validateGoalAnalysis (getProp data ''goalAnalysis'') of
          Inl e \<Rightarrow> Inl e
        | Inr ga \<Rightarrow>
           (if \<not> isArray (getProp data ''actionSteps'')
               \<or> length (elems (getProp data ''actionSteps'')) = 0 then
              Inl (ValidationError ''actionSteps'' ''Must be a non-empty array'')
            else
             (case map_indexed validateActionStep (elems (getProp data ''actionSteps'')) 0 of
                Inl e \<Rightarrow> Inl e
              | Inr steps \<Rightarrow>
                 (if typeof (getProp data ''totalEstimatedTime'') \<noteq> TString then
                    Inl (ValidationError ''totalEstimatedTime'' ''Total estimated time is required'')
                  else if \<not> isArray (getProp data ''risks'') then
                    Inl (ValidationError ''risks'' ''Must be an array'')
                  else
                   (case map_indexed validateRisk (elems (getProp data ''risks'')) 0 of
                      Inl e \<Rightarrow> Inl e
                    | Inr rs \<Rightarrow>
                       (case validateNextAction (getProp data ''nextImmediateAction'') of
                          Inl e \<Rightarrow> Inl e
                        | Inr na \<Rightarrow>
                            Inr \<lparr> goalAnalysis = ga,
                                  actionSteps = steps,
                                  totalEstimatedTime = str_of (getProp data ''totalEstimatedTime''),
                                  risks = rs,
                                  nextImmediateAction = na \<rparr>)))))))"

section \<open>Response parser\<close>

definition fence :: string where
  "fence = [CHR 0x60, CHR 0x60, CHR 0x60]"

text \<open>The local \<^verbatim>\<open>cleanContent\<close> of \<^verbatim>\<open>parseJSONResponse\<close> when it reaches \<^verbatim>\<open>JSON.parse\<close>.\<close>

definition cleanContent :: "string \<Rightarrow> string" where
  "cleanContent content =
     (let c0 = trim content;
          c1 = (if startsWith c0 (fence @ ''json'') then drop 7 c0
                else if startsWith c0 fence then drop 3 c0
                else c0);
          c2 = (if endsWith c1 fence then take (length c1 - 3) c1 else c1)
      in trim c2)"

text \<open>
  \<^verbatim>\<open>JSON.parse\<close> belongs to the platform and is a parameter: \<open>None\<close> when it throws
  its \<^verbatim>\<open>SyntaxError\<close>.
\<close>

definition parseJSONResponse :: "(string \<Rightarrow> jsval option) \<Rightarrow> string \<Rightarrow> error + jsval" where
  "parseJSONResponse JSON_parse content =
     (case JSON_parse (cleanContent content) of
        Some v \<Rightarrow> Inr v
      | None \<Rightarrow> Inl (OtherError ''Failed to parse LLM response as JSON''))"

section \<open>The platform and its effects\<close>

text \<open>
  What a \<^verbatim>\<open>Response\<close> shows to the code: its status, \<^verbatim>\<open>text()\<close> and \<^verbatim>\<open>json()\<close>
  (\<open>Inl m\<close> when \<^verbatim>\<open>json()\<close> rejects with message \<open>m\<close>).
\<close>

record Response =
  resp_status :: nat
  resp_text :: string
  resp_json :: "string + jsval"

datatype fetch_result = Rejected string | Resolved Response

definition ok :: "Response \<Rightarrow> bool" where
  "ok response = (200 \<le> resp_status response \<and> resp_status response \<le> 299)"

text \<open>
  The observable effects of a run, in order: an outbound request, a back-off delay that
  is awaited (in ms), and the start of a tool executor (its log line).
\<close>

datatype event = Fetch | Sleep nat | ToolExec string

record world =
  calls :: nat
  trace :: "event list"

definition sleep :: "nat \<Rightarrow> world \<Rightarrow> world" where
  "sleep ms w = w\<lparr>trace := trace w @ [Sleep ms]\<rparr>"

definition emit :: "event \<Rightarrow> world \<Rightarrow> world" where
  "emit ev w = w\<lparr>trace := trace w @ [ev]\<rparr>"

record LLMConfig =
  apiKey :: string
  model :: string
  temperature :: rat
  maxTokens :: nat

text \<open>
  The system and user prompts of a request are built from these values only, so they
  stand for the request that goes out.
\<close>

datatype llm_request =
    AnalyzeRequest string string
  | StepsRequest string string "string option"
  | RisksRequest string "ActionStep list"
  | NextActionRequest "ActionStep list" string

text \<open>
  The platform: \<^verbatim>\<open>JSON.parse\<close>; \<^verbatim>\<open>fetch\<close> towards the gateway, whose \<open>n\<close>-th call
  (counted from 0) may answer anything; and the environment variable of the API key.
  Lines 402 to 410 of \<^verbatim>\<open>callLLM\<close> rebuild \<^verbatim>\<open>message.tool_calls\<close>, which no executor
  reads: all that reaches the callers is whether that throws (coercions and
  \<^verbatim>\<open>JSON.parse\<close> of the arguments), which is \<open>tool_calls_throw\<close>.
\<close>

record platform =
  JSON_parse :: "string \<Rightarrow> jsval option"
  fetch :: "nat \<Rightarrow> LLMConfig \<Rightarrow> llm_request \<Rightarrow> fetch_result"
  tool_calls_throw :: "jsval \<Rightarrow> string option"
  LOVABLE_API_KEY :: "string option"

section \<open>Gateway call of the orchestrated function\<close>

text \<open>\<^verbatim>\<open>v?.[0]\<close>\<close>

fun opt_index0 :: "jsval \<Rightarrow> jsval" where
  "opt_index0 (JArr (x # xs)) = x"
| "opt_index0 (JObj kvs) = getProp (JObj kvs) ''0''"
| "opt_index0 (JStr (c # cs)) = JStr [c]"
| "opt_index0 v = JUndefined"

text \<open>\<^verbatim>\<open>v?.k\<close>\<close>

fun opt_prop :: "jsval \<Rightarrow> string \<Rightarrow> jsval" where
  "opt_prop JUndefined k = JUndefined"
| "opt_prop JNull k = JUndefined"
| "opt_prop v k = getProp v k"

definition callLLM ::
  "platform \<Rightarrow> LLMConfig \<Rightarrow> llm_request \<Rightarrow> world \<Rightarrow> (error + jsval) \<times> world" where
  "callLLM pf config req w =
     (let w1 = emit Fetch (w\<lparr>calls := Suc (calls w)\<rparr>) in
      case fetch pf (calls w) config req of
        Rejected m \<Rightarrow> (Inl (OtherError m), w1)
      | Resolved response \<Rightarrow>
         (if \<not> ok response then
            (Inl (OtherError (''LLM API error '' @ string_of_nat (resp_status response)
                               @ '': '' @ resp_text response)), w1)
          else
           (case resp_json response of
              Inl m \<Rightarrow> (Inl (OtherError m), w1)
            | Inr data \<Rightarrow>
               (if data = JNull \<or> data = JUndefined then
                  (Inl (OtherError (''Cannot read properties of null (reading '' @ [CHR 0x27]
                                      @ ''choices'' @ [CHR 0x27] @ '')'')), w1)
                else
                 (let msg = opt_prop (opt_index0 (getProp data ''choices'')) ''message'' in
                  if falsy msg then
                    (Inl (OtherError ''No message in LLM response''), w1)
                  else
                   (case tool_calls_throw pf msg of
                      Some m \<Rightarrow> (Inl (OtherError m), w1)
                    | None \<Rightarrow>
                       (Inr (if falsy (getProp msg ''content'') then JStr []
                             else getProp msg ''content''), w1)))))))"

section \<open>Tool executors\<close>

text \<open>
  \<^verbatim>\<open>parseJSONResponse(response.content)\<close>: the content is declared a string, and
  \<^verbatim>\<open>content.trim()\<close> throws a \<^verbatim>\<open>TypeError\<close> on anything else.
\<close>

definition parseContent :: "platform \<Rightarrow> jsval \<Rightarrow> error + jsval" where
  "parseContent pf content =
     (case content of
        JStr s \<Rightarrow> parseJSONResponse (JSON_parse pf) s
      | _ \<Rightarrow> Inl (OtherError ''content.trim is not a function''))"

definition executeAnalyzeComplexity ::
  "platform \<Rightarrow> LLMConfig \<Rightarrow> string \<Rightarrow> string \<Rightarrow> world \<Rightarrow> (error + GoalAnalysis) \<times> world" where
  "executeAnalyzeComplexity pf config g p w =
     (case callLLM pf config (AnalyzeRequest g p) (emit (ToolExec ''analyze_goal_complexity'') w) of
        (Inl e, w1) \<Rightarrow> (Inl e, w1)
      | (Inr content, w1) \<Rightarrow>
         (case parseContent pf content of
            Inl e \<Rightarrow> (Inl e, w1)
          | Inr parsed \<Rightarrow> (validateGoalAnalysis parsed, w1)))"

definition executeGenerateSteps ::
  "platform \<Rightarrow> LLMConfig \<Rightarrow> string \<Rightarrow> string \<Rightarrow> string option \<Rightarrow> world
     \<Rightarrow> (error + ActionStep list \<times> string) \<times> world" where
  "executeGenerateSteps pf config g c t w =
     (case callLLM pf config (StepsRequest g c t) (emit (ToolExec ''generate_action_steps'') w) of
        (Inl e, w1) \<Rightarrow> (Inl e, w1)
      | (Inr content, w1) \<Rightarrow>
         (case parseContent pf content of
            Inl e \<Rightarrow> (Inl e, w1)
          | Inr parsed \<Rightarrow>
             (if falsy parsed \<or> \<not> isArray (getProp parsed ''steps'') then
                (Inl (ValidationError ''steps'' ''Invalid steps structure''), w1)
              else
               (case map_indexed validateActionStep (elems (getProp parsed ''steps'')) 0 of
                  Inl e \<Rightarrow> (Inl e, w1)
                | Inr validatedSteps \<Rightarrow>
                   (Inr (validatedSteps,
                         if typeof (getProp parsed ''totalTime'') = TString
                         then str_of (getProp parsed ''totalTime'') else ''Varies''), w1)))))"

definition executeIdentifyRisks ::
  "platform \<Rightarrow> LLMConfig \<Rightarrow> string \<Rightarrow> ActionStep list \<Rightarrow> world \<Rightarrow> (error + Risk list) \<times> world" where
  "executeIdentifyRisks pf config g steps w =
     (case callLLM pf config (RisksRequest g steps) (emit (ToolExec ''identify_risks'') w) of
        (Inl e, w1) \<Rightarrow> (Inl e, w1)
      | (Inr content, w1) \<Rightarrow>
         (case parseContent pf content of
            Inl e \<Rightarrow> (Inl e, w1)
          | Inr parsed \<Rightarrow>
             (if falsy parsed \<or> \<not> isArray (getProp parsed ''risks'') then
                (Inl (ValidationError ''risks'' ''Invalid risks structure''), w1)
              else (map_indexed validateRisk (elems (getProp parsed ''risks'')) 0, w1))))"

definition executeDetermineNextAction ::
  "platform \<Rightarrow> LLMConfig \<Rightarrow> ActionStep list \<Rightarrow> string \<Rightarrow> world \<Rightarrow> (error + NextAction) \<times> world" where
  "executeDetermineNextAction pf config steps p w =
     (case callLLM pf config (NextActionRequest (take 3 steps) p)
             (emit (ToolExec ''determine_next_action'') w) of
        (Inl e, w1) \<Rightarrow> (Inl e, w1)
      | (Inr content, w1) \<Rightarrow>
         (case parseContent pf content of
            Inl e \<Rightarrow> (Inl e, w1)
          | Inr parsed \<Rightarrow> (validateNextAction parsed, w1)))"

section \<open>Orchestrator\<close>

text \<open>A typed entity as the object it is at run time.\<close>

definition analysis_obj :: "GoalAnalysis \<Rightarrow> jsval" where
  "analysis_obj a = JObj [(''summary'', JStr (summary a)), (''category'', JStr (category a)),
                          (''complexity'', JStr (complexity a))]"

definition step_obj :: "ActionStep \<Rightarrow> jsval" where
  "step_obj s = JObj [(''stepNumber'', JNum (stepNumber s)), (''title'', JStr (step_title s)),
                      (''description'', JStr (description s)),
                      (''estimatedTime'', JStr (estimatedTime s)),
                      (''dependencies'', JArr (dependencies s))]"

definition risk_obj :: "Risk \<Rightarrow> jsval" where
  "risk_obj r = JObj [(''id'', JStr (risk_id r)), (''title'', JStr (risk_title r)),
                      (''severity'', JStr (severity r)), (''mitigation'', JStr (mitigation r))]"

definition action_obj :: "NextAction \<Rightarrow> jsval" where
  "action_obj a = JObj [(''action'', JStr (action a)), (''reasoning'', JStr (reasoning a)),
                        (''timeframe'', JStr (timeframe a))]"

text \<open>\<^verbatim>\<open>obj.k = v\<close> on an object.\<close>

fun assign :: "(string \<times> jsval) list \<Rightarrow> string \<Rightarrow> jsval \<Rightarrow> (string \<times> jsval) list" where
  "assign [] k v = [(k, v)]"
| "assign ((k', v') # kvs) k v = (if k' = k then (k, v) # kvs else (k', v') # assign kvs k v)"

record AgentState =
  input :: GoalInput
  currentStep :: string
  toolCalls :: "(string \<times> jsval) list"
  toolResults :: "(string \<times> jsval) list"
  partialResponse :: "(string \<times> jsval) list"
  retryCount :: nat
  maxRetries :: nat

definition createAgentState :: "GoalInput \<Rightarrow> AgentState" where
  "createAgentState inp =
     \<lparr> input = inp, currentStep = ''initialize'', toolCalls = [], toolResults = [],
       partialResponse = [], retryCount = 0, maxRetries = 3 \<rparr>"

text \<open>
  The loop of \<^verbatim>\<open>executeWithRetry\<close>, from \<^verbatim>\<open>attempt\<close> on: \<open>fn\<close> is the whole executor
  invocation, run again from the start at every attempt.
\<close>

function executeWithRetry_from ::
  "nat \<Rightarrow> (world \<Rightarrow> (error + 'a) \<times> world) \<Rightarrow> nat \<Rightarrow> error option \<Rightarrow> world
     \<Rightarrow> (error + 'a) \<times> world" where
  "executeWithRetry_from maxR fn attempt lastError w =
     (if attempt < maxR then
        (case fn w of
           (r, w1) \<Rightarrow>
             (case r of
                Inr v \<Rightarrow> (Inr v, w1)
              | Inl e \<Rightarrow>
                  executeWithRetry_from maxR fn (Suc attempt) (Some e)
                    (if attempt < maxR - 1 then sleep (1000 * 2 ^ attempt) w1 else w1)))
      else
        (Inl (case lastError of Some e \<Rightarrow> e | None \<Rightarrow> OtherError ''Max retries exceeded''), w))"
  by pat_completeness auto
termination
  by (relation "measure (\<lambda>(maxR, fn, attempt, lastError, w). maxR - attempt)") auto

definition executeWithRetry ::
  "nat \<Rightarrow> (world \<Rightarrow> (error + 'a) \<times> world) \<Rightarrow> world \<Rightarrow> (error + 'a) \<times> world" where
  "executeWithRetry maxR fn w = executeWithRetry_from maxR fn 0 None w"

text \<open>
  \<^verbatim>\<open>PlanningAgent.run\<close>. The \<^verbatim>\<open>catch\<close> logs the step and rethrows, so a failure leaves
  with the agent state as it was when the step failed.
\<close>

definition run ::
  "platform \<Rightarrow> LLMConfig \<Rightarrow> AgentState \<Rightarrow> world \<Rightarrow> (error + AgentResponse) \<times> AgentState \<times> world" where
  "run pf config st0 w0 =
     (let st1 = st0\<lparr>currentStep := ''analyze_complexity''\<rparr> in
      case executeWithRetry (maxRetries st1)
             (executeAnalyzeComplexity pf config (goal (input st1)) (priority (input st1))) w0 of
        (Inl e, w1) \<Rightarrow> (Inl e, st1, w1)
      | (Inr ga, w1) \<Rightarrow>
         (let st2 = st1\<lparr>partialResponse := assign (partialResponse st1) ''goalAnalysis'' (analysis_obj ga),
                        toolResults := toolResults st1 @ [(''analyze_goal_complexity'', analysis_obj ga)],
                        currentStep := ''generate_steps''\<rparr> in
          case executeWithRetry (maxRetries st2)
                 (executeGenerateSteps pf config (goal (input st2)) (complexity ga)
                    (timeAvailable (input st2))) w1 of
            (Inl e, w2) \<Rightarrow> (Inl e, st2, w2)
          | (Inr (steps, totalTime), w2) \<Rightarrow>
             (let st3 = st2\<lparr>partialResponse :=
                              assign (assign (partialResponse st2) ''actionSteps'' (JArr (map step_obj steps)))
                                ''totalEstimatedTime'' (JStr totalTime),
                            toolResults := toolResults st2 @
                              [(''generate_action_steps'',
                                JObj [(''steps'', JArr (map step_obj steps)), (''totalTime'', JStr totalTime)])],
                            currentStep := ''identify_risks''\<rparr> in
              case executeWithRetry (maxRetries st3)
                     (executeIdentifyRisks pf config (goal (input st3)) steps) w2 of
                (Inl e, w3) \<Rightarrow> (Inl e, st3, w3)
              | (Inr rs, w3) \<Rightarrow>
                 (let st4 = st3\<lparr>partialResponse := assign (partialResponse st3) ''risks'' (JArr (map risk_obj rs)),
                                toolResults := toolResults st3 @ [(''identify_risks'', JArr (map risk_obj rs))],
                                currentStep := ''determine_next_action''\<rparr> in
                  case executeWithRetry (maxRetries st4)
                         (executeDetermineNextAction pf config steps (priority (input st4))) w3 of
                    (Inl e, w4) \<Rightarrow> (Inl e, st4, w4)
                  | (Inr nextAction, w4) \<Rightarrow>
                     (let st5 = st4\<lparr>partialResponse :=
                                      assign (partialResponse st4) ''nextImmediateAction'' (action_obj nextAction),
                                    toolResults := toolResults st4 @ [(''determine_next_action'', action_obj nextAction)],
                                    currentStep := ''validate_output''\<rparr> in
                      (validateFullResponse (JObj (partialResponse st5)), st5, w4))))))"

section \<open>HTTP handler\<close>

text \<open>\<^verbatim>\<open>req.json()\<close> rejects (\<open>Inl\<close>) when the body is not JSON.\<close>

record Request =
  req_method :: string
  req_json :: "string + jsval"

text \<open>
  \<^verbatim>\<open>JSON.stringify(v)\<close>, given as the value that its text denotes, which is what the
  caller reads back: a number that is not finite is written \<^verbatim>\<open>null\<close>, and so is
  \<^verbatim>\<open>undefined\<close> in an array; a member that is \<^verbatim>\<open>undefined\<close> is left out.
\<close>

fun stringified :: "jsval \<Rightarrow> jsval" where
  "stringified (JNum (Finite r)) = JNum (Finite r)"
| "stringified (JNum PosInf) = JNull"
| "stringified (JNum NegInf) = JNull"
| "stringified (JArr xs) = JArr (map (\<lambda>x. if x = JUndefined then JNull else stringified x) xs)"
| "stringified (JObj kvs) =
     JObj (map (\<lambda>kv. (fst kv, stringified (snd kv))) (filter (\<lambda>kv. snd kv \<noteq> JUndefined) kvs))"
| "stringified v = v"

text \<open>The response that \<^verbatim>\<open>run\<close> returns, as the object it is at run time.\<close>

definition response_obj :: "AgentResponse \<Rightarrow> jsval" where
  "response_obj r =
     JObj [(''goalAnalysis'', analysis_obj (goalAnalysis r)),
           (''actionSteps'', JArr (map step_obj (actionSteps r))),
           (''totalEstimatedTime'', JStr (totalEstimatedTime r)),
           (''risks'', JArr (map risk_obj (risks r))),
           (''nextImmediateAction'', action_obj (nextImmediateAction r))]"

text \<open>
  The body of a reply: none, the serialised plan, or the error object with its code,
  message and field (a field that is \<^verbatim>\<open>undefined\<close> is not serialised).
\<close>

datatype response_body =
    NoBody
  | PlanBody jsval
  | ErrorBody string string "string option"

record HttpResponse =
  http_status :: nat
  http_body :: response_body

text \<open>The \<^verbatim>\<open>catch\<close> block of the handler.\<close>

definition errorResponse :: "error \<Rightarrow> HttpResponse" where
  "errorResponse e =
     \<lparr> http_status = (if isValidationError e then 400 else 500),
       http_body = ErrorBody (if isValidationError e then ''VALIDATION_ERROR'' else ''AGENT_ERROR'')
                     (message e) (error_field e) \<rparr>"

definition serve :: "platform \<Rightarrow> Request \<Rightarrow> world \<Rightarrow> HttpResponse \<times> world" where
  "serve pf req w =
     (if req_method req = ''OPTIONS'' then (\<lparr> http_status = 200, http_body = NoBody \<rparr>, w)
      else
       (case req_json req of
          Inl m \<Rightarrow> (errorResponse (OtherError m), w)
        | Inr body \<Rightarrow>
           (case validateInput body of
              Inl e \<Rightarrow> (errorResponse e, w)
            | Inr inp \<Rightarrow>
               (if LOVABLE_API_KEY pf = None \<or> LOVABLE_API_KEY pf = Some [] then
                  (errorResponse (OtherError ''Lovable AI key is not configured''), w)
                else
                 (case run pf \<lparr> apiKey = the (LOVABLE_API_KEY pf),
                                 model = ''google/gemini-3-flash-preview'',
                                 temperature = 7 / 10, maxTokens = 1500 \<rparr>
                         (createAgentState inp) w of
                    (Inl e, st, w1) \<Rightarrow> (errorResponse e, w1)
                  | (Inr result, st, w1) \<Rightarrow>
                      (\<lparr> http_status = 200, http_body = PlanBody (stringified (response_obj result)) \<rparr>, w1))))))"

section \<open>Retrying gateway client of the single-call function\<close>

text \<open>
  \<^verbatim>\<open>fetchWithRetry\<close> of \<^verbatim>\<open>supabase/functions/analyze-goal/index.ts\<close>: the URL and the
  options are the same at every attempt, so \<open>fetch_at n\<close> is what the \<open>n\<close>-th call
  answers. A \<^verbatim>\<open>throw\<close> inside the \<^verbatim>\<open>try\<close> (a rejected \<^verbatim>\<open>fetch\<close>, or the one of the
  4xx branch) lands in the \<^verbatim>\<open>catch\<close> of the same iteration, which is \<open>caught\<close>.
\<close>

function fetchWithRetry_from ::
  "(nat \<Rightarrow> fetch_result) \<Rightarrow> nat \<Rightarrow> nat \<Rightarrow> nat \<Rightarrow> error option \<Rightarrow> world
     \<Rightarrow> (error + Response) \<times> world" where
  "fetchWithRetry_from fetch_at maxR baseDelay attempt lastError w =
     (if attempt < maxR then
        (let w1 = emit Fetch (w\<lparr>calls := Suc (calls w)\<rparr>);
             caught = (\<lambda>e. fetchWithRetry_from fetch_at maxR baseDelay (Suc attempt) (Some e)
                             (if attempt < maxR - 1 then sleep (baseDelay * 2 ^ attempt) w1 else w1))
         in case fetch_at (calls w) of
              Rejected m \<Rightarrow> caught (OtherError m)
            | Resolved response \<Rightarrow>
               (if ok response then (Inr response, w1)
                else if resp_status response = 429 then
                  fetchWithRetry_from fetch_at maxR baseDelay (Suc attempt) lastError
                    (sleep (baseDelay * 2 ^ attempt * 2) w1)
                else if resp_status response \<ge> 400 \<and> resp_status response < 500 then
                  caught (OtherError (''API error '' @ string_of_nat (resp_status response)
                                       @ '': '' @ resp_text response))
                else if resp_status response \<ge> 500 then
                  fetchWithRetry_from fetch_at maxR baseDelay (Suc attempt) lastError
                    (sleep (baseDelay * 2 ^ attempt) w1)
                else
                  fetchWithRetry_from fetch_at maxR baseDelay (Suc attempt) lastError w1))
      else
        (Inl (case lastError of Some e \<Rightarrow> e | None \<Rightarrow> OtherError ''Max retries exceeded''), w))"
  by pat_completeness auto
termination
  by (relation "measure (\<lambda>(fetch_at, maxR, baseDelay, attempt, lastError, w). maxR - attempt)") auto

definition fetchWithRetry ::
  "(nat \<Rightarrow> fetch_result) \<Rightarrow> nat \<Rightarrow> nat \<Rightarrow> world \<Rightarrow> (error + Response) \<times> world" where
  "fetchWithRetry fetch_at maxR baseDelay w = fetchWithRetry_from fetch_at maxR baseDelay 0 None w"

section \<open>Sample data\<close>

text \<open>
  Concrete texts and platforms for the examples. \<open>quoted s\<close> is the JSON string literal of
  a plain text \<open>s\<close>; \<open>parse_table\<close> is a parser that knows the listed documents, each
  with the value \<^verbatim>\<open>JSON.parse\<close> gives it, and rejects any other text.
\<close>

definition quoted :: "string \<Rightarrow> string" where
  "quoted s = [CHR 0x22] @ s @ [CHR 0x22]"

definition parse_table :: "(string \<times> jsval) list \<Rightarrow> string \<Rightarrow> jsval option" where
  "parse_table table s = map_of table s"

definition doc_a1 :: string where
  "doc_a1 = ''{'' @ quoted ''a'' @ '':1}''"

definition parse_a1 :: "string \<Rightarrow> jsval option" where
  "parse_a1 = parse_table [(doc_a1, JObj [(''a'', JNum (Finite 1))])]"

text \<open>
  A gateway that answers the \<open>n\<close>-th call with the \<open>n\<close>-th entry of a list, and is
  unreachable afterwards; a reply with a status and a body that is not JSON.
\<close>

definition script :: "fetch_result list \<Rightarrow> nat \<Rightarrow> fetch_result" where
  "script rs n = (if n < length rs then rs ! n else Rejected ''network unreachable'')"

definition reply :: "nat \<Rightarrow> string \<Rightarrow> fetch_result" where
  "reply code body =
     Resolved \<lparr> resp_status = code, resp_text = body, resp_json = Inl ''Unexpected token'' \<rparr>"

definition world0 :: world where
  "world0 = \<lparr> calls = 0, trace = [] \<rparr>"

text \<open>The tool executors that were started, in order: the \<open>ToolExec\<close> events of a trace.\<close>

fun tool_events :: "event list \<Rightarrow> string list" where
  "tool_events [] = []"
| "tool_events (ToolExec n # es) = n # tool_events es"
| "tool_events (e # es) = tool_events es"

text \<open>
  A chat-completion reply of the gateway, status 200, whose first choice carries
  \<open>content\<close>; the four fragments of a small plan as JSON texts (\<open>obj_text\<close> puts the
  braces around the members), each with its parsed value. The step fragment has no
  \<open>totalTime\<close> member.
\<close>

definition chat_reply :: "string \<Rightarrow> fetch_result" where
  "chat_reply content =
     Resolved \<lparr> resp_status = 200, resp_text = [],
                resp_json = Inr (JObj [(''choices'',
                  JArr [JObj [(''message'',
                    JObj [(''role'', JStr ''assistant''), (''content'', JStr content)])]])]) \<rparr>"

definition obj_text :: "string \<Rightarrow> string" where
  "obj_text members = ''{'' @ members @ ''}''"

definition analysis_text :: string where
  "analysis_text = obj_text (quoted ''summary'' @ '':'' @ quoted ''Learn basic guitar chords'' @ '',''
                     @ quoted ''category'' @ '':'' @ quoted ''Learning'' @ '',''
                     @ quoted ''complexity'' @ '':'' @ quoted ''simple'')"

definition analysis_value :: jsval where
  "analysis_value = JObj [(''summary'', JStr ''Learn basic guitar chords''),
                          (''category'', JStr ''Learning''), (''complexity'', JStr ''simple'')]"

definition steps_text :: string where
  "steps_text = obj_text (quoted ''steps'' @ '':[{'' @ quoted ''stepNumber'' @ '':1,''
                  @ quoted ''title'' @ '':'' @ quoted ''Buy a guitar'' @ '',''
                  @ quoted ''description'' @ '':'' @ quoted ''Pick a beginner instrument'' @ '',''
                  @ quoted ''estimatedTime'' @ '':'' @ quoted ''1 day'' @ '',''
                  @ quoted ''dependencies'' @ '':[]}]'')"

definition steps_value :: jsval where
  "steps_value = JObj [(''steps'', JArr [JObj [(''stepNumber'', JNum (Finite 1)),
                   (''title'', JStr ''Buy a guitar''),
                   (''description'', JStr ''Pick a beginner instrument''),
                   (''estimatedTime'', JStr ''1 day''), (''dependencies'', JArr [])]])]"

definition risks_text :: string where
  "risks_text = obj_text (quoted ''risks'' @ '':[{'' @ quoted ''id'' @ '':'' @ quoted ''risk_1'' @ '',''
                  @ quoted ''title'' @ '':'' @ quoted ''Losing motivation'' @ '',''
                  @ quoted ''severity'' @ '':'' @ quoted ''medium'' @ '',''
                  @ quoted ''mitigation'' @ '':'' @ quoted ''Practise with a friend'' @ ''}]'')"

definition risks_value :: jsval where
  "risks_value = JObj [(''risks'', JArr [JObj [(''id'', JStr ''risk_1''),
                   (''title'', JStr ''Losing motivation''), (''severity'', JStr ''medium''),
                   (''mitigation'', JStr ''Practise with a friend'')]])]"

definition action_text :: string where
  "action_text = obj_text (quoted ''action'' @ '':'' @ quoted ''Order a guitar'' @ '',''
                   @ quoted ''reasoning'' @ '':'' @ quoted ''Nothing starts without it'' @ '',''
                   @ quoted ''timeframe'' @ '':'' @ quoted ''Today'')"

definition action_value :: jsval where
  "action_value = JObj [(''action'', JStr ''Order a guitar''),
                        (''reasoning'', JStr ''Nothing starts without it''),
                        (''timeframe'', JStr ''Today'')]"

text \<open>
  A step fragment whose only step has the number 1.5 and the dependencies 7 and
  \<^verbatim>\<open>null\<close>, and which carries a total time.
\<close>

definition fraction_steps_text :: string where
  "fraction_steps_text = obj_text (quoted ''steps'' @ '':[{'' @ quoted ''stepNumber'' @ '':1.5,''
                  @ quoted ''title'' @ '':'' @ quoted ''Buy a guitar'' @ '',''
                  @ quoted ''description'' @ '':'' @ quoted ''Pick a beginner instrument'' @ '',''
                  @ quoted ''estimatedTime'' @ '':'' @ quoted ''1 day'' @ '',''
                  @ quoted ''dependencies'' @ '':[7,null]}],''
                  @ quoted ''totalTime'' @ '':'' @ quoted ''2 days'')"

definition fraction_steps_value :: jsval where
  "fraction_steps_value = JObj [(''steps'', JArr [JObj [(''stepNumber'', JNum (Finite (3 / 2))),
                   (''title'', JStr ''Buy a guitar''),
                   (''description'', JStr ''Pick a beginner instrument''),
                   (''estimatedTime'', JStr ''1 day''),
                   (''dependencies'', JArr [JNum (Finite 7), JNull])]]),
                 (''totalTime'', JStr ''2 days'')]"

definition sample_parse :: "string \<Rightarrow> jsval option" where
  "sample_parse = parse_table [(obj_text [], JObj []), (analysis_text, analysis_value),
                               (steps_text, steps_value), (risks_text, risks_value),
                               (action_text, action_value),
                               (fraction_steps_text, fraction_steps_value)]"

text \<open>
  Gateways: one that answers every request with the fragment it asks for; and platforms
  around it. \<open>failing_platform tool\<close> answers 500 to every request of that tool;
  \<open>fraction_platform\<close> answers step generation with the fragment of the step
  numbered 1.5; \<open>flaky_platform\<close> answers the first call with prose and the second with an empty
  object, both with status 200; \<open>prose_platform\<close> always answers prose and
  \<open>empty_platform\<close> always an empty object, with status 200.
\<close>

definition good_gateway :: "nat \<Rightarrow> LLMConfig \<Rightarrow> llm_request \<Rightarrow> fetch_result" where
  "good_gateway n config req =
     (case req of
        AnalyzeRequest g p \<Rightarrow> chat_reply analysis_text
      | StepsRequest g c t \<Rightarrow> chat_reply steps_text
      | RisksRequest g steps \<Rightarrow> chat_reply risks_text
      | NextActionRequest steps p \<Rightarrow> chat_reply action_text)"

definition good_platform :: platform where
  "good_platform = \<lparr> JSON_parse = sample_parse, fetch = good_gateway,
                      tool_calls_throw = (\<lambda>m. None), LOVABLE_API_KEY = Some ''secret'' \<rparr>"

fun request_tool :: "llm_request \<Rightarrow> string" where
  "request_tool (AnalyzeRequest g p) = ''analyze_goal_complexity''"
| "request_tool (StepsRequest g c t) = ''generate_action_steps''"
| "request_tool (RisksRequest g steps) = ''identify_risks''"
| "request_tool (NextActionRequest steps p) = ''determine_next_action''"

definition failing_platform :: "string \<Rightarrow> platform" where
  "failing_platform tool =
     good_platform\<lparr> fetch := (\<lambda>n config req.
        if request_tool req = tool then reply 500 ''upstream down''
        else good_gateway n config req) \<rparr>"

text \<open>The world after one invocation of the executor of a tool.\<close>

definition invoked :: "string \<Rightarrow> world \<Rightarrow> world" where
  "invoked tool w = \<lparr> calls = Suc (calls w), trace = trace w @ [ToolExec tool, Fetch] \<rparr>"

definition flaky_platform :: platform where
  "flaky_platform =
     good_platform\<lparr> fetch := (\<lambda>n config req.
        if n = 0 then chat_reply ''not json''
        else if n = 1 then chat_reply (obj_text [])
        else good_gateway n config req) \<rparr>"

definition fraction_platform :: platform where
  "fraction_platform =
     good_platform\<lparr> fetch := (\<lambda>n config req.
        case req of StepsRequest g c t \<Rightarrow> chat_reply fraction_steps_text
                  | _ \<Rightarrow> good_gateway n config req) \<rparr>"

definition prose_platform :: platform where
  "prose_platform = good_platform\<lparr> fetch := (\<lambda>n config req. chat_reply ''not json'') \<rparr>"

definition empty_platform :: platform where
  "empty_platform = good_platform\<lparr> fetch := (\<lambda>n config req. chat_reply (obj_text [])) \<rparr>"

definition sample_config :: LLMConfig where
  "sample_config = \<lparr> apiKey = ''secret'', model = ''google/gemini-3-flash-preview'',
                      temperature = 7 / 10, maxTokens = 1500 \<rparr>"

definition sample_request :: Request where
  "sample_request = \<lparr> req_method = ''POST'',
                       req_json = Inr (JObj [(''goal'', JStr ''Learn guitar basics''),
                                             (''priority'', JStr ''medium'')]) \<rparr>"

definition sample_input :: GoalInput where
  "sample_input = \<lparr> goal = ''Learn guitar basics'', priority = ''medium'', timeAvailable = None \<rparr>"

definition sample_analysis :: GoalAnalysis where
  "sample_analysis = \<lparr> summary = ''Learn basic guitar chords'', category = ''Learning'',
                        complexity = ''simple'' \<rparr>"

definition sample_step :: ActionStep where
  "sample_step = \<lparr> stepNumber = Finite 1, step_title = ''Buy a guitar'',
                    description = ''Pick a beginner instrument'', estimatedTime = ''1 day'',
                    dependencies = [] \<rparr>"


definition sample_risk :: Risk where
  "sample_risk = \<lparr> risk_id = ''risk_1'', risk_title = ''Losing motivation'',
                    severity = ''medium'', mitigation = ''Practise with a friend'' \<rparr>"

definition sample_action :: NextAction where
  "sample_action = \<lparr> action = ''Order a guitar'', reasoning = ''Nothing starts without it'',
                      timeframe = ''Today'' \<rparr>"

definition sample_response :: AgentResponse where
  "sample_response = \<lparr> goalAnalysis = sample_analysis, actionSteps = [sample_step],
                        totalEstimatedTime = ''Varies'', risks = [sample_risk],
                        nextImmediateAction = sample_action \<rparr>"


section \<open>The retry policy in closed form\<close>

text \<open>
  The policy of the gateway client as the specification words it, to compare the loop
  with. A failure is transient when no response came, or the status is 429 or 5xx. The
  delay after a transient failure at an attempt is \<open>base * 2^attempt\<close>, doubled for
  429. \<open>retry_events\<close> is what \<open>k\<close> transient failures in a row leave in the
  trace, from attempt \<open>a\<close> and call \<open>c\<close> on, when another attempt follows each of
  them: a request and the delay, \<open>k\<close> times.
\<close>

fun transient :: "fetch_result \<Rightarrow> bool" where
  "transient (Rejected m) = True"
| "transient (Resolved r) = (resp_status r = 429 \<or> resp_status r \<ge> 500)"

fun spec_delay :: "nat \<Rightarrow> nat \<Rightarrow> fetch_result \<Rightarrow> nat" where
  "spec_delay base attempt (Rejected m) = base * 2 ^ attempt"
| "spec_delay base attempt (Resolved r) =
     (if resp_status r = 429 then base * 2 ^ attempt * 2 else base * 2 ^ attempt)"

fun retry_events :: "nat \<Rightarrow> (nat \<Rightarrow> fetch_result) \<Rightarrow> nat \<Rightarrow> nat \<Rightarrow> nat \<Rightarrow> event list" where
  "retry_events base fetch_at c a 0 = []"
| "retry_events base fetch_at c a (Suc k) =
     Fetch # Sleep (spec_delay base a (fetch_at c)) # retry_events base fetch_at (Suc c) (Suc a) k"

text \<open>
  When the limit is reached nothing follows the last attempt: the loop still awaits the
  delay after a status 429 or 5xx, but not after a failed connection. The error that is
  propagated is the one of the last failed connection among the \<open>k\<close> calls from
  \<open>c\<close> on, if there was one.
\<close>

fun final_events :: "nat \<Rightarrow> nat \<Rightarrow> fetch_result \<Rightarrow> event list" where
  "final_events base attempt (Rejected m) = [Fetch]"
| "final_events base attempt (Resolved r) = [Fetch, Sleep (spec_delay base attempt (Resolved r))]"

fun last_rejection :: "(nat \<Rightarrow> fetch_result) \<Rightarrow> nat \<Rightarrow> nat \<Rightarrow> error option \<Rightarrow> error option" where
  "last_rejection fetch_at c 0 le = le"
| "last_rejection fetch_at c (Suc k) le =
     last_rejection fetch_at (Suc c) k
       (case fetch_at c of Rejected m \<Rightarrow> Some (OtherError m) | Resolved r \<Rightarrow> le)"

section \<open>Basic facts\<close>

declare fetchWithRetry_from.simps [simp del]

declare executeWithRetry_from.simps [simp del]

lemma typeof_string_iff: "typeof v = TString \<longleftrightarrow> (\<exists>s. v = JStr s)"
  by (cases v) auto

lemma typeof_number_iff: "typeof v = TNumber \<longleftrightarrow> (\<exists>n. v = JNum n)"
  by (cases v) auto

lemma isArray_iff: "isArray v \<longleftrightarrow> (\<exists>xs. v = JArr xs)"
  by (cases v) auto

lemma arr_includes_iff: "arr_includes xs v \<longleftrightarrow> (\<exists>s. v = JStr s \<and> s \<in> set xs)"
  by (cases v) auto

lemma trim_empty_iff: "trim s = [] \<longleftrightarrow> list_all is_ws s"
proof
  assume "trim s = []"
  then have a: "\<forall>x\<in>set (dropWhile is_ws s). is_ws x"
    by (simp add: trim_def dropWhile_eq_Nil_conv)
  have "dropWhile is_ws s = []"
  proof (rule ccontr)
    assume n: "dropWhile is_ws s \<noteq> []"
    then have "\<not> is_ws (hd (dropWhile is_ws s))" by (rule hd_dropWhile)
    moreover have "hd (dropWhile is_ws s) \<in> set (dropWhile is_ws s)" using n by simp
    ultimately show False using a by blast
  qed
  then show "list_all is_ws s" by (simp only: dropWhile_eq_Nil_conv list_all_iff)
next
  assume "list_all is_ws s"
  then have d: "dropWhile is_ws s = []" by (simp add: list_all_iff)
  show "trim s = []" unfolding trim_def d by simp
qed

lemma trim_fixed: "s = [] \<or> (\<not> is_ws (hd s) \<and> \<not> is_ws (last s)) \<Longrightarrow> trim s = s"
proof (cases "s = []")
  case True
  then show ?thesis by (simp add: trim_def)
next
  case False
  assume "s = [] \<or> (\<not> is_ws (hd s) \<and> \<not> is_ws (last s))"
  with False have h: "\<not> is_ws (hd s)" and l: "\<not> is_ws (last s)" by auto
  from h have 1: "dropWhile is_ws s = s" by (simp add: dropWhile_eq_self_iff)
  from l False have 2: "dropWhile is_ws (rev s) = rev s"
    by (simp add: dropWhile_eq_self_iff hd_rev)
  show ?thesis unfolding trim_def 1 2 by simp
qed

lemma trim_ends:
  assumes "trim s \<noteq> []"
  shows "\<not> is_ws (hd (trim s)) \<and> \<not> is_ws (last (trim s))"
proof -
  let ?d = "dropWhile is_ws s"
  let ?e = "dropWhile is_ws (rev ?d)"
  have ts: "trim s = rev ?e" by (simp only: trim_def)
  have e: "?e \<noteq> []"
  proof
    assume "?e = []"
    then have "trim s = []" unfolding ts by (simp only: rev.simps)
    with assms show False by simp
  qed
  then have d: "?d \<noteq> []" by (metis dropWhile.simps(1) rev.simps(1))
  from e have he: "\<not> is_ws (hd ?e)" by (rule hd_dropWhile)
  have "last (trim s) = hd ?e" unfolding ts by (rule last_rev)
  with he have l: "\<not> is_ws (last (trim s))" by simp
  from d have hd: "\<not> is_ws (hd ?d)" by (rule hd_dropWhile)
  have "hd (trim s) = last ?e" unfolding ts by (rule hd_rev)
  also have "\<dots> = last (rev ?d)"
    using e by (metis append_Nil2 last_appendR takeWhile_dropWhile_id)
  also have "\<dots> = hd ?d" by (rule last_rev)
  finally have "hd (trim s) = hd ?d" .
  with hd have "\<not> is_ws (hd (trim s))" by simp
  with l show ?thesis by simp
qed

lemma trim_idem: "trim (trim s) = trim s"
  using trim_ends [of s] trim_fixed [of "trim s"] by blast

lemma trim_ws_append:
  assumes a: "list_all is_ws a" and b: "list_all is_ws b"
  shows "trim (a @ d @ b) = trim d"
proof -
  have 1: "dropWhile is_ws (a @ d @ b) = dropWhile is_ws (d @ b)"
    using a by (simp add: dropWhile_append2 list_all_iff)
  show ?thesis
  proof (cases "list_all is_ws d")
    case True
    then have "list_all is_ws (a @ d @ b)" using a b by simp
    then have "trim (a @ d @ b) = []" by (simp only: trim_empty_iff)
    moreover have "trim d = []" using True by (simp only: trim_empty_iff)
    ultimately show ?thesis by simp
  next
    case False
    then obtain x where x: "x \<in> set d" "\<not> is_ws x" by (auto simp: list_all_iff)
    then have 2: "dropWhile is_ws (d @ b) = dropWhile is_ws d @ b"
      by (simp add: dropWhile_append1)
    have 3: "dropWhile is_ws (rev b @ rev (dropWhile is_ws d)) = dropWhile is_ws (rev (dropWhile is_ws d))"
      by (rule dropWhile_append2) (use b in \<open>simp add: list_all_iff\<close>)
    show ?thesis unfolding trim_def 1 2 by (simp add: 3)
  qed
qed

lemma fence_not_ws: "\<not> is_ws (CHR 0x60)"
  by (simp add: is_ws_def)

lemma cleanContent_bare:
  assumes "\<not> startsWith (trim c) fence" and "\<not> endsWith (trim c) fence"
  shows "cleanContent c = trim c"
proof -
  have "\<not> startsWith (trim c) (fence @ ''json'')"
  proof
    assume st: "startsWith (trim c) (fence @ ''json'')"
    have l7: "length (fence @ ''json'') = 7" by (simp add: fence_def)
    have l3: "length fence = 3" by (simp add: fence_def)
    from st have a: "take 7 (trim c) = fence @ ''json''" by (simp only: startsWith_def l7)
    have "take 3 (trim c) = take 3 (take 7 (trim c))" by simp
    also have "\<dots> = take 3 (fence @ ''json'')" by (simp only: a)
    also have "\<dots> = fence" by (simp add: fence_def)
    finally have "startsWith (trim c) fence" by (simp only: startsWith_def l3)
    with assms(1) show False by simp
  qed
  with assms show ?thesis
    by (simp add: cleanContent_def Let_def trim_idem)
qed

lemma fence_length: "length fence = 3" "length (fence @ ''json'') = 7"
  by (simp_all add: fence_def)

lemma startsWith_append: "startsWith (a @ r) (a @ p) = startsWith r p"
  by (simp add: startsWith_def)

lemma startsWith_prefix: "startsWith (a @ r) a"
  by (simp add: startsWith_def)

lemma endsWith_suffix: "endsWith (v @ p) p"
  by (simp add: endsWith_def)

lemma startsWith_fence_json: "startsWith t (fence @ ''json'') \<Longrightarrow> startsWith t fence"
proof -
  assume st: "startsWith t (fence @ ''json'')"
  then have a: "take 7 t = fence @ ''json''" by (simp only: startsWith_def fence_length)
  have "take 3 t = take 3 (take 7 t)" by simp
  also have "\<dots> = take 3 (fence @ ''json'')" by (simp only: a)
  also have "\<dots> = fence" by (simp add: fence_def)
  finally show "startsWith t fence" by (simp only: startsWith_def fence_length)
qed

lemma strip_fence:
  "drop 7 (fence @ ''json'' @ u) = u" "drop 3 (fence @ u) = u"
  "take (length (v @ fence) - 3) (v @ fence) = v"
  by (simp_all add: fence_def)

lemma cleanContent_open_tagged_close:
  assumes "trim c = fence @ ''json'' @ v @ fence"
  shows "cleanContent c = trim v"
proof -
  have s: "startsWith (trim c) (fence @ ''json'')"
    unfolding assms using startsWith_prefix [of "fence @ ''json''" "v @ fence"] by simp
  have d: "drop 7 (trim c) = v @ fence" unfolding assms by (rule strip_fence)
  show ?thesis
    unfolding cleanContent_def Let_def
    by (simp only: s d endsWith_suffix strip_fence if_True)
qed

lemma cleanContent_open_tagged:
  assumes "trim c = fence @ ''json'' @ u" and "\<not> endsWith u fence"
  shows "cleanContent c = trim u"
proof -
  have s: "startsWith (trim c) (fence @ ''json'')"
    unfolding assms(1) using startsWith_prefix [of "fence @ ''json''" u] by simp
  have d: "drop 7 (trim c) = u" unfolding assms(1) by (rule strip_fence)
  show ?thesis
    unfolding cleanContent_def Let_def
    by (simp only: s d assms(2) if_True if_False)
qed

lemma not_tagged:
  assumes "\<not> startsWith u ''json''"
  shows "\<not> startsWith (fence @ u) (fence @ ''json'')"
  using assms by (simp add: startsWith_append)

lemma cleanContent_open_close:
  assumes "trim c = fence @ v @ fence" and "\<not> startsWith (v @ fence) ''json''"
  shows "cleanContent c = trim v"
proof -
  have n: "\<not> startsWith (trim c) (fence @ ''json'')"
    unfolding assms(1) using assms(2) by (rule not_tagged)
  have s: "startsWith (trim c) fence" unfolding assms(1) by (rule startsWith_prefix)
  have d: "drop 3 (trim c) = v @ fence" unfolding assms(1) by (rule strip_fence)
  show ?thesis
    unfolding cleanContent_def Let_def
    by (simp only: n s d endsWith_suffix strip_fence if_True if_False)
qed

lemma cleanContent_open:
  assumes "trim c = fence @ u" and "\<not> startsWith u ''json''" and "\<not> endsWith u fence"
  shows "cleanContent c = trim u"
proof -
  have n: "\<not> startsWith (trim c) (fence @ ''json'')"
    unfolding assms(1) using assms(2) by (rule not_tagged)
  have s: "startsWith (trim c) fence" unfolding assms(1) by (rule startsWith_prefix)
  have d: "drop 3 (trim c) = u" unfolding assms(1) by (rule strip_fence)
  show ?thesis
    unfolding cleanContent_def Let_def
    by (simp only: n s d assms(3) if_True if_False)
qed

lemma cleanContent_close:
  assumes "\<not> startsWith (trim c) fence" and "trim c = v @ fence"
  shows "cleanContent c = trim v"
proof -
  have n: "\<not> startsWith (trim c) (fence @ ''json'')"
    using assms(1) startsWith_fence_json by blast
  have e: "endsWith (trim c) fence" unfolding assms(2) by (rule endsWith_suffix)
  have k: "take (length (trim c) - 3) (trim c) = v" unfolding assms(2) by (rule strip_fence)
  show ?thesis
    unfolding cleanContent_def Let_def
    by (simp only: n assms(1) e k if_True if_False)
qed

lemma trim_outer_fenced:
  assumes "list_all is_ws o1" and "list_all is_ws o2"
  shows "trim (o1 @ (fence @ y @ fence) @ o2) = fence @ y @ fence"
proof -
  have "trim (o1 @ (fence @ y @ fence) @ o2) = trim (fence @ y @ fence)"
    using assms by (rule trim_ws_append)
  also have "\<dots> = fence @ y @ fence"
    by (rule trim_fixed) (simp add: fence_def fence_not_ws)
  finally show ?thesis .
qed

section \<open>Facts about the executors and the retry loop\<close>

lemma callLLM_world:
  "snd (callLLM pf cfg req w) = \<lparr> calls = Suc (calls w), trace = trace w @ [Fetch] \<rparr>"
  by (simp add: callLLM_def Let_def emit_def split: fetch_result.splits sum.splits option.splits)

lemma callLLM_pair:
  "callLLM pf cfg req w = (fst (callLLM pf cfg req w), \<lparr> calls = Suc (calls w), trace = trace w @ [Fetch] \<rparr>)"
  by (simp add: prod_eq_iff callLLM_world)

lemma executeAnalyzeComplexity_world:
  "snd (executeAnalyzeComplexity pf cfg g p w) =
     \<lparr> calls = Suc (calls w), trace = trace w @ [ToolExec ''analyze_goal_complexity'', Fetch] \<rparr>"
  unfolding executeAnalyzeComplexity_def
  by (subst callLLM_pair) (simp add: emit_def split: sum.splits)

lemma executeGenerateSteps_world:
  "snd (executeGenerateSteps pf cfg g c t w) =
     \<lparr> calls = Suc (calls w), trace = trace w @ [ToolExec ''generate_action_steps'', Fetch] \<rparr>"
  unfolding executeGenerateSteps_def
  by (subst callLLM_pair) (simp add: emit_def split: sum.splits)

lemma executeIdentifyRisks_world:
  "snd (executeIdentifyRisks pf cfg g steps w) =
     \<lparr> calls = Suc (calls w), trace = trace w @ [ToolExec ''identify_risks'', Fetch] \<rparr>"
  unfolding executeIdentifyRisks_def
  by (subst callLLM_pair) (simp add: emit_def split: sum.splits)

lemma executeDetermineNextAction_world:
  "snd (executeDetermineNextAction pf cfg steps p w) =
     \<lparr> calls = Suc (calls w), trace = trace w @ [ToolExec ''determine_next_action'', Fetch] \<rparr>"
  unfolding executeDetermineNextAction_def
  by (subst callLLM_pair) (simp add: emit_def split: sum.splits)

lemma executeWithRetry_3:
  "executeWithRetry 3 fn w =
     (case fn w of
        (Inr v, w1) \<Rightarrow> (Inr v, w1)
      | (Inl e1, w1) \<Rightarrow>
         (case fn (sleep (1000 * 2 ^ 0) w1) of
            (Inr v, w2) \<Rightarrow> (Inr v, w2)
          | (Inl e2, w2) \<Rightarrow>
             (case fn (sleep (1000 * 2 ^ 1) w2) of
                (Inr v, w3) \<Rightarrow> (Inr v, w3)
              | (Inl e3, w3) \<Rightarrow> (Inl e3, w3))))"
  by (simp add: executeWithRetry_def executeWithRetry_from.simps [of 3]
        split: prod.splits sum.splits)


lemma tool_events_append: "tool_events (xs @ ys) = tool_events xs @ tool_events ys"
  by (induction xs rule: tool_events.induct) auto

lemma retry_tool_events:
  assumes step: "\<And>w. snd (fn w) = \<lparr> calls = Suc (calls w), trace = trace w @ [ToolExec n, Fetch] \<rparr>"
  shows "\<exists>k. k \<le> maxR - attempt
           \<and> (attempt < maxR \<longrightarrow> 0 < k)
           \<and> tool_events (trace (snd (executeWithRetry_from maxR fn attempt le w))) =
               tool_events (trace w) @ replicate k n"
proof (induction "maxR - attempt" arbitrary: attempt le w)
  case 0
  then have "\<not> attempt < maxR" by simp
  then show ?case by (simp add: executeWithRetry_from.simps [of maxR fn attempt])
next
  case (Suc d)
  then have lt: "attempt < maxR" by simp
  obtain r w1 where f: "fn w = (r, w1)" by (cases "fn w")
  have w1: "w1 = \<lparr> calls = Suc (calls w), trace = trace w @ [ToolExec n, Fetch] \<rparr>"
    using step [of w] by (simp add: f)
  show ?case
  proof (cases r)
    case (Inr v)
    then have "snd (executeWithRetry_from maxR fn attempt le w) = w1"
      using lt f by (simp add: executeWithRetry_from.simps [of maxR fn attempt])
    then have "tool_events (trace (snd (executeWithRetry_from maxR fn attempt le w))) =
               tool_events (trace w) @ replicate 1 n"
      by (simp add: w1 tool_events_append)
    moreover have "1 \<le> maxR - attempt" using lt by simp
    ultimately show ?thesis by (intro exI [of _ 1]) simp
  next
    case (Inl e)
    let ?w2 = "if attempt < maxR - 1 then sleep (1000 * 2 ^ attempt) w1 else w1"
    have d: "d = maxR - Suc attempt" using Suc.hyps(2) by simp
    from Suc.hyps(1) [OF d, of "Some e" ?w2]
    obtain k where k: "k \<le> maxR - Suc attempt"
      and t: "tool_events (trace (snd (executeWithRetry_from maxR fn (Suc attempt) (Some e) ?w2))) =
               tool_events (trace ?w2) @ replicate k n"
      by blast
    have u: "executeWithRetry_from maxR fn attempt le w =
               executeWithRetry_from maxR fn (Suc attempt) (Some e) ?w2"
      using lt f Inl by (simp add: executeWithRetry_from.simps [of maxR fn attempt])
    have tw2: "tool_events (trace ?w2) = tool_events (trace w) @ [n]"
      by (simp add: w1 sleep_def tool_events_append)
    have "tool_events (trace (snd (executeWithRetry_from maxR fn attempt le w))) =
               tool_events (trace w) @ replicate (Suc k) n"
      unfolding u t tw2 by simp
    moreover have "Suc k \<le> maxR - attempt" using k lt by simp
    ultimately show ?thesis by (intro exI [of _ "Suc k"]) simp
  qed
qed

lemma executeWithRetry_0: "executeWithRetry 0 fn w = (Inl (OtherError ''Max retries exceeded''), w)"
  by (simp add: executeWithRetry_def executeWithRetry_from.simps [of 0])

lemma retry_events:
  assumes step: "\<And>w. snd (fn w) = \<lparr> calls = Suc (calls w), trace = trace w @ [ToolExec n, Fetch] \<rparr>"
    and run: "executeWithRetry m fn w = (r, w')"
  shows "\<exists>k. k \<le> m \<and> ((\<exists>v. r = Inr v) \<longrightarrow> 0 < k)
           \<and> tool_events (trace w') = tool_events (trace w) @ replicate k n"
proof -
  from retry_tool_events [of fn n m 0 None w, OF step]
  obtain k where k: "k \<le> m" "0 < m \<longrightarrow> 0 < k"
    "tool_events (trace (snd (executeWithRetry_from m fn 0 None w))) =
       tool_events (trace w) @ replicate k n"
    by auto
  have "(\<exists>v. r = Inr v) \<longrightarrow> 0 < m"
    using run executeWithRetry_0 [of fn w] by (cases m) auto
  with k run show ?thesis by (auto simp: executeWithRetry_def)
qed

section \<open>Facts about the validators\<close>










section \<open>Evaluating the sample platforms\<close>

lemma startsWith_hd: "startsWith s p \<Longrightarrow> p \<noteq> [] \<Longrightarrow> hd s = hd p"
  unfolding startsWith_def by (metis hd_take length_greater_0_conv)

lemma endsWith_last: "endsWith s p \<Longrightarrow> p \<noteq> [] \<Longrightarrow> last s = last p"
  unfolding endsWith_def by (metis last_drop length_0_conv diff_less length_greater_0_conv
      less_le_trans)

lemma cleanContent_obj_text: "cleanContent (obj_text b) = obj_text b"
proof -
  have t: "trim (obj_text b) = obj_text b"
    by (rule trim_fixed) (simp add: obj_text_def is_ws_def)
  have s: "\<not> startsWith (obj_text b) fence"
    using startsWith_hd [of "obj_text b" fence] by (auto simp: obj_text_def fence_def)
  have e: "\<not> endsWith (obj_text b) fence"
    using endsWith_last [of "obj_text b" fence] by (auto simp: obj_text_def fence_def)
  from s e show ?thesis using cleanContent_bare [of "obj_text b"] by (simp add: t)
qed

lemma cleanContent_prose: "cleanContent ''not json'' = ''not json''"
proof -
  have t: "trim ''not json'' = ''not json''"
    by (rule trim_fixed) (simp add: is_ws_def)
  have "\<not> startsWith ''not json'' fence" "\<not> endsWith ''not json'' fence"
    by (simp_all add: startsWith_def endsWith_def fence_def)
  then show ?thesis using cleanContent_bare [of "''not json''"] by (simp add: t)
qed

lemma sample_parse_values:
  "sample_parse (obj_text []) = Some (JObj [])"
  "sample_parse analysis_text = Some analysis_value"
  "sample_parse steps_text = Some steps_value"
  "sample_parse risks_text = Some risks_value"
  "sample_parse action_text = Some action_value"
  "sample_parse ''not json'' = None"
  "sample_parse fraction_steps_text = Some fraction_steps_value"
  by (simp_all add: sample_parse_def parse_table_def analysis_text_def steps_text_def
        risks_text_def action_text_def fraction_steps_text_def obj_text_def quoted_def)

lemma texts_nonempty:
  "obj_text b \<noteq> []" "analysis_text \<noteq> []" "steps_text \<noteq> []" "risks_text \<noteq> []" "action_text \<noteq> []"
  "fraction_steps_text \<noteq> []"
  by (simp_all add: analysis_text_def steps_text_def risks_text_def action_text_def
        fraction_steps_text_def obj_text_def)

lemma callLLM_chat_reply:
  assumes "fetch pf (calls w) cfg req = chat_reply c"
    and "tool_calls_throw pf (JObj [(''role'', JStr ''assistant''), (''content'', JStr c)]) = None"
    and "c \<noteq> []"
  shows "callLLM pf cfg req w = (Inr (JStr c), \<lparr> calls = Suc (calls w), trace = trace w @ [Fetch] \<rparr>)"
  using assms by (simp add: callLLM_def chat_reply_def ok_def emit_def Let_def)

lemma callLLM_reply_not_ok:
  assumes "fetch pf (calls w) cfg req = reply code body"
    and "\<not> (200 \<le> code \<and> code \<le> 299)"
  shows "callLLM pf cfg req w =
           (Inl (OtherError (''LLM API error '' @ string_of_nat code @ '': '' @ body)),
            \<lparr> calls = Suc (calls w), trace = trace w @ [Fetch] \<rparr>)"
  using assms by (simp add: callLLM_def reply_def ok_def emit_def Let_def del: string_of_nat.simps)

lemma cleanContent_texts:
  "cleanContent analysis_text = analysis_text"
  "cleanContent steps_text = steps_text"
  "cleanContent risks_text = risks_text"
  "cleanContent action_text = action_text"
  "cleanContent fraction_steps_text = fraction_steps_text"
  by (simp_all only: analysis_text_def steps_text_def risks_text_def action_text_def
        fraction_steps_text_def cleanContent_obj_text)

lemma parseContent_sample:
  "JSON_parse pf = sample_parse \<Longrightarrow> parseContent pf (JStr (obj_text [])) = Inr (JObj [])"
  "JSON_parse pf = sample_parse \<Longrightarrow> parseContent pf (JStr analysis_text) = Inr analysis_value"
  "JSON_parse pf = sample_parse \<Longrightarrow> parseContent pf (JStr steps_text) = Inr steps_value"
  "JSON_parse pf = sample_parse \<Longrightarrow> parseContent pf (JStr risks_text) = Inr risks_value"
  "JSON_parse pf = sample_parse \<Longrightarrow> parseContent pf (JStr action_text) = Inr action_value"
  "JSON_parse pf = sample_parse \<Longrightarrow> parseContent pf (JStr ''not json'') =
     Inl (OtherError ''Failed to parse LLM response as JSON'')"
  "JSON_parse pf = sample_parse \<Longrightarrow> parseContent pf (JStr fraction_steps_text) =
     Inr fraction_steps_value"
  by (simp_all add: parseContent_def parseJSONResponse_def cleanContent_prose sample_parse_values
        cleanContent_texts cleanContent_obj_text)

lemma analyze_good:
  assumes "JSON_parse pf = sample_parse" and "tool_calls_throw pf = (\<lambda>m. None)"
    and "fetch pf (calls w) cfg (AnalyzeRequest g p) = chat_reply analysis_text"
  shows "executeAnalyzeComplexity pf cfg g p w =
           (Inr sample_analysis,
            \<lparr> calls = Suc (calls w), trace = trace w @ [ToolExec ''analyze_goal_complexity'', Fetch] \<rparr>)"
  using assms
  by (simp add: executeAnalyzeComplexity_def callLLM_chat_reply parseContent_sample texts_nonempty
        emit_def validateGoalAnalysis_def analysis_value_def sample_analysis_def
        validComplexities_def)


lemma analyze_empty:
  assumes "JSON_parse pf = sample_parse" and "tool_calls_throw pf = (\<lambda>m. None)"
    and "fetch pf (calls w) cfg (AnalyzeRequest g p) = chat_reply (obj_text [])"
  shows "executeAnalyzeComplexity pf cfg g p w =
           (Inl (ValidationError ''goalAnalysis.summary'' ''Must be a meaningful summary''),
            \<lparr> calls = Suc (calls w), trace = trace w @ [ToolExec ''analyze_goal_complexity'', Fetch] \<rparr>)"
  using assms
  by (simp add: executeAnalyzeComplexity_def callLLM_chat_reply parseContent_sample texts_nonempty
        emit_def validateGoalAnalysis_def)

lemma steps_good:
  assumes "JSON_parse pf = sample_parse" and "tool_calls_throw pf = (\<lambda>m. None)"
    and "fetch pf (calls w) cfg (StepsRequest g c t) = chat_reply steps_text"
  shows "executeGenerateSteps pf cfg g c t w =
           (Inr ([sample_step], ''Varies''),
            \<lparr> calls = Suc (calls w), trace = trace w @ [ToolExec ''generate_action_steps'', Fetch] \<rparr>)"
  using assms
  by (simp add: executeGenerateSteps_def callLLM_chat_reply parseContent_sample texts_nonempty
        emit_def validateActionStep_def steps_value_def sample_step_def)


lemma steps_down:
  assumes "fetch pf (calls w) cfg (StepsRequest g c t) = reply 500 ''upstream down''"
  shows "executeGenerateSteps pf cfg g c t w =
           (Inl (OtherError ''LLM API error 500: upstream down''),
            \<lparr> calls = Suc (calls w), trace = trace w @ [ToolExec ''generate_action_steps'', Fetch] \<rparr>)"
proof -
  have n: "string_of_nat 500 = ''500''" by code_simp
  show ?thesis
    using assms
    by (simp add: executeGenerateSteps_def callLLM_reply_not_ok emit_def n del: string_of_nat.simps)
qed

lemma risks_good:
  assumes "JSON_parse pf = sample_parse" and "tool_calls_throw pf = (\<lambda>m. None)"
    and "fetch pf (calls w) cfg (RisksRequest g steps) = chat_reply risks_text"
  shows "executeIdentifyRisks pf cfg g steps w =
           (Inr [sample_risk],
            \<lparr> calls = Suc (calls w), trace = trace w @ [ToolExec ''identify_risks'', Fetch] \<rparr>)"
  using assms
  by (simp add: executeIdentifyRisks_def callLLM_chat_reply parseContent_sample texts_nonempty
        emit_def risks_value_def validateRisk_def validSeverities_def sample_risk_def)


lemma action_good:
  assumes "JSON_parse pf = sample_parse" and "tool_calls_throw pf = (\<lambda>m. None)"
    and "fetch pf (calls w) cfg (NextActionRequest (take 3 steps) p) = chat_reply action_text"
  shows "executeDetermineNextAction pf cfg steps p w =
           (Inr sample_action,
            \<lparr> calls = Suc (calls w), trace = trace w @ [ToolExec ''determine_next_action'', Fetch] \<rparr>)"
  using assms
  by (simp add: executeDetermineNextAction_def callLLM_chat_reply parseContent_sample texts_nonempty
        emit_def validateNextAction_def action_value_def sample_action_def)


lemma platform_fields:
  "JSON_parse good_platform = sample_parse" "tool_calls_throw good_platform = (\<lambda>m. None)"
  "JSON_parse (failing_platform tool) = sample_parse"
  "tool_calls_throw (failing_platform tool) = (\<lambda>m. None)"
  "JSON_parse flaky_platform = sample_parse" "tool_calls_throw flaky_platform = (\<lambda>m. None)"
  "JSON_parse prose_platform = sample_parse" "tool_calls_throw prose_platform = (\<lambda>m. None)"
  "JSON_parse empty_platform = sample_parse" "tool_calls_throw empty_platform = (\<lambda>m. None)"
  "LOVABLE_API_KEY good_platform = Some ''secret''"
  "LOVABLE_API_KEY (failing_platform tool) = Some ''secret''"
  "LOVABLE_API_KEY empty_platform = Some ''secret''"
  "JSON_parse fraction_platform = sample_parse" "tool_calls_throw fraction_platform = (\<lambda>m. None)"
  "LOVABLE_API_KEY fraction_platform = Some ''secret''"
  by (simp_all add: good_platform_def failing_platform_def flaky_platform_def
        prose_platform_def empty_platform_def fraction_platform_def)



lemma retry3_first_ok:
  "fn w = (Inr v, w1) \<Longrightarrow> executeWithRetry 3 fn w = (Inr v, w1)"
  by (simp add: executeWithRetry_3)

lemma retry3_all_fail:
  assumes "\<And>w. fn w = (Inl e, invoked n w)"
  shows "executeWithRetry 3 fn w =
           (Inl e, invoked n (sleep 2000 (invoked n (sleep 1000 (invoked n w)))))"
  by (simp add: executeWithRetry_3 assms)

lemma failing_fetch:
  "fetch (failing_platform tool) n cfg req =
     (if request_tool req = tool then reply 500 ''upstream down'' else good_gateway n cfg req)"
  by (simp add: failing_platform_def good_platform_def)

lemma good_fetch:
  "fetch good_platform = good_gateway"
  "good_gateway n cfg (AnalyzeRequest g p) = chat_reply analysis_text"
  "good_gateway n cfg (StepsRequest g c t) = chat_reply steps_text"
  "good_gateway n cfg (RisksRequest g steps) = chat_reply risks_text"
  "good_gateway n cfg (NextActionRequest steps p) = chat_reply action_text"
  by (simp_all add: good_platform_def good_gateway_def)

lemma analyze_down:
  assumes "fetch pf (calls w) cfg (AnalyzeRequest g p) = reply 500 ''upstream down''"
  shows "executeAnalyzeComplexity pf cfg g p w =
           (Inl (OtherError ''LLM API error 500: upstream down''),
            invoked ''analyze_goal_complexity'' w)"
proof -
  have n: "string_of_nat 500 = ''500''" by code_simp
  show ?thesis
    using assms
    by (simp add: executeAnalyzeComplexity_def callLLM_reply_not_ok emit_def invoked_def n
          del: string_of_nat.simps)
qed

lemma risks_down:
  assumes "fetch pf (calls w) cfg (RisksRequest g steps) = reply 500 ''upstream down''"
  shows "executeIdentifyRisks pf cfg g steps w =
           (Inl (OtherError ''LLM API error 500: upstream down''), invoked ''identify_risks'' w)"
proof -
  have n: "string_of_nat 500 = ''500''" by code_simp
  show ?thesis
    using assms
    by (simp add: executeIdentifyRisks_def callLLM_reply_not_ok emit_def invoked_def n
          del: string_of_nat.simps)
qed

lemma action_down:
  assumes "fetch pf (calls w) cfg (NextActionRequest (take 3 steps) p) = reply 500 ''upstream down''"
  shows "executeDetermineNextAction pf cfg steps p w =
           (Inl (OtherError ''LLM API error 500: upstream down''),
            invoked ''determine_next_action'' w)"
proof -
  have n: "string_of_nat 500 = ''500''" by code_simp
  show ?thesis
    using assms
    by (simp add: executeDetermineNextAction_def callLLM_reply_not_ok emit_def invoked_def n
          del: string_of_nat.simps)
qed

text \<open>Each step under the retry, on a platform that fails one tool and serves the others.\<close>

lemma retry_analyze:
  "executeWithRetry 3 (executeAnalyzeComplexity (failing_platform tool) cfg g p) w =
     (if tool = ''analyze_goal_complexity''
      then (Inl (OtherError ''LLM API error 500: upstream down''),
            invoked ''analyze_goal_complexity'' (sleep 2000 (invoked ''analyze_goal_complexity''
              (sleep 1000 (invoked ''analyze_goal_complexity'' w)))))
      else (Inr sample_analysis, invoked ''analyze_goal_complexity'' w))"
proof (cases "tool = ''analyze_goal_complexity''")
  case True
  have "\<And>w. executeAnalyzeComplexity (failing_platform tool) cfg g p w =
          (Inl (OtherError ''LLM API error 500: upstream down''), invoked ''analyze_goal_complexity'' w)"
    by (rule analyze_down) (simp add: failing_fetch True)
  then show ?thesis using True by (simp add: retry3_all_fail)
next
  case False
  have "executeAnalyzeComplexity (failing_platform tool) cfg g p w =
          (Inr sample_analysis, invoked ''analyze_goal_complexity'' w)"
    unfolding invoked_def
    by (rule analyze_good) (use False in \<open>auto simp: platform_fields failing_fetch good_fetch\<close>)
  then show ?thesis using False by (simp add: retry3_first_ok)
qed

lemma retry_steps:
  "executeWithRetry 3 (executeGenerateSteps (failing_platform tool) cfg g c t) w =
     (if tool = ''generate_action_steps''
      then (Inl (OtherError ''LLM API error 500: upstream down''),
            invoked ''generate_action_steps'' (sleep 2000 (invoked ''generate_action_steps''
              (sleep 1000 (invoked ''generate_action_steps'' w)))))
      else (Inr ([sample_step], ''Varies''), invoked ''generate_action_steps'' w))"
proof (cases "tool = ''generate_action_steps''")
  case True
  have "\<And>w. executeGenerateSteps (failing_platform tool) cfg g c t w =
          (Inl (OtherError ''LLM API error 500: upstream down''), invoked ''generate_action_steps'' w)"
    unfolding invoked_def
    by (rule steps_down) (simp add: failing_fetch True)
  then show ?thesis using True by (simp add: retry3_all_fail)
next
  case False
  have "executeGenerateSteps (failing_platform tool) cfg g c t w =
          (Inr ([sample_step], ''Varies''), invoked ''generate_action_steps'' w)"
    unfolding invoked_def
    by (rule steps_good) (use False in \<open>auto simp: platform_fields failing_fetch good_fetch\<close>)
  then show ?thesis using False by (simp add: retry3_first_ok)
qed

lemma retry_risks:
  "executeWithRetry 3 (executeIdentifyRisks (failing_platform tool) cfg g steps) w =
     (if tool = ''identify_risks''
      then (Inl (OtherError ''LLM API error 500: upstream down''),
            invoked ''identify_risks'' (sleep 2000 (invoked ''identify_risks''
              (sleep 1000 (invoked ''identify_risks'' w)))))
      else (Inr [sample_risk], invoked ''identify_risks'' w))"
proof (cases "tool = ''identify_risks''")
  case True
  have "\<And>w. executeIdentifyRisks (failing_platform tool) cfg g steps w =
          (Inl (OtherError ''LLM API error 500: upstream down''), invoked ''identify_risks'' w)"
    by (rule risks_down) (simp add: failing_fetch True)
  then show ?thesis using True by (simp add: retry3_all_fail)
next
  case False
  have "executeIdentifyRisks (failing_platform tool) cfg g steps w =
          (Inr [sample_risk], invoked ''identify_risks'' w)"
    unfolding invoked_def
    by (rule risks_good) (use False in \<open>auto simp: platform_fields failing_fetch good_fetch\<close>)
  then show ?thesis using False by (simp add: retry3_first_ok)
qed

lemma retry_action:
  "executeWithRetry 3 (executeDetermineNextAction (failing_platform tool) cfg steps p) w =
     (if tool = ''determine_next_action''
      then (Inl (OtherError ''LLM API error 500: upstream down''),
            invoked ''determine_next_action'' (sleep 2000 (invoked ''determine_next_action''
              (sleep 1000 (invoked ''determine_next_action'' w)))))
      else (Inr sample_action, invoked ''determine_next_action'' w))"
proof (cases "tool = ''determine_next_action''")
  case True
  have "\<And>w. executeDetermineNextAction (failing_platform tool) cfg steps p w =
          (Inl (OtherError ''LLM API error 500: upstream down''), invoked ''determine_next_action'' w)"
    by (rule action_down) (simp add: failing_fetch True)
  then show ?thesis using True by (simp add: retry3_all_fail)
next
  case False
  have "executeDetermineNextAction (failing_platform tool) cfg steps p w =
          (Inr sample_action, invoked ''determine_next_action'' w)"
    unfolding invoked_def
    by (rule action_good) (use False in \<open>auto simp: platform_fields failing_fetch good_fetch\<close>)
  then show ?thesis using False by (simp add: retry3_first_ok)
qed

lemma good_is_failing_none: "good_platform = failing_platform ''none''"
  by (simp add: failing_platform_def good_platform_def fun_eq_iff good_gateway_def
        split: llm_request.splits)

lemma good_run:
  "fst (run (failing_platform ''none'') sample_config (createAgentState sample_input) w)
     = Inr sample_response"
  by (simp add: run_def Let_def retry_analyze retry_steps retry_risks retry_action
        createAgentState_def sample_input_def validateFullResponse_def
        analysis_obj_def step_obj_def risk_obj_def action_obj_def sample_analysis_def
        sample_step_def sample_risk_def sample_action_def sample_response_def
        validateGoalAnalysis_def validateActionStep_def validateRisk_def validateNextAction_def
        validComplexities_def validSeverities_def)

lemma sample_request_valid:
  "validateInput (JObj [(''goal'', JStr ''Learn guitar basics''), (''priority'', JStr ''medium'')])
     = Inr sample_input"
proof -
  have t: "trim ''Learn guitar basics'' = ''Learn guitar basics''"
    by (rule trim_fixed) (simp add: is_ws_def)
  show ?thesis
    by (simp add: validateInput_def t validPriorities_def sample_input_def)
qed

lemma serve_runs:
  assumes "req_method req \<noteq> ''OPTIONS''" and "req_json req = Inr body"
    and "validateInput body = Inr inp" and "LOVABLE_API_KEY pf = Some key" and "key \<noteq> []"
  shows "serve pf req w =
           (case run pf \<lparr> apiKey = key, model = ''google/gemini-3-flash-preview'',
                          temperature = 7 / 10, maxTokens = 1500 \<rparr> (createAgentState inp) w of
              (Inl e, st, w1) \<Rightarrow> (errorResponse e, w1)
            | (Inr result, st, w1) \<Rightarrow> (\<lparr> http_status = 200, http_body = PlanBody (stringified (response_obj result)) \<rparr>, w1))"
  using assms by (simp add: serve_def)







lemma validateInput_error: "validateInput b = Inl e \<Longrightarrow> isValidationError e"
  by (auto simp: validateInput_def split: if_splits)

lemma retry_analyze_empty:
  "executeWithRetry 3 (executeAnalyzeComplexity empty_platform cfg g p) w =
     (Inl (ValidationError ''goalAnalysis.summary'' ''Must be a meaningful summary''),
      invoked ''analyze_goal_complexity'' (sleep 2000 (invoked ''analyze_goal_complexity''
        (sleep 1000 (invoked ''analyze_goal_complexity'' w)))))"
proof -
  have f: "\<And>n req. fetch empty_platform n cfg req = chat_reply (obj_text [])"
    by (simp add: empty_platform_def good_platform_def)
  have "\<And>w. executeAnalyzeComplexity empty_platform cfg g p w =
          (Inl (ValidationError ''goalAnalysis.summary'' ''Must be a meaningful summary''),
           invoked ''analyze_goal_complexity'' w)"
    unfolding invoked_def by (rule analyze_empty) (simp_all add: platform_fields f)
  then show ?thesis by (simp add: retry3_all_fail)
qed

lemma empty_run:
  "fst (run empty_platform cfg (createAgentState inp) w) =
     Inl (ValidationError ''goalAnalysis.summary'' ''Must be a meaningful summary'')"
  by (simp add: run_def Let_def retry_analyze_empty createAgentState_def)

lemma failing_steps_run:
  "fst (run (failing_platform ''generate_action_steps'') cfg (createAgentState inp) w) =
     Inl (OtherError ''LLM API error 500: upstream down'')"
  by (simp add: run_def Let_def retry_analyze retry_steps createAgentState_def)

section \<open>Facts about the retrying gateway client\<close>

lemma world_update:
  "(w :: world)\<lparr> calls := c, trace := t \<rparr> = \<lparr> calls = c, trace = t \<rparr>"
  by (cases w) simp

lemma fetchWithRetry_from_transient:
  assumes "Suc a < maxR" and "transient (fetch_at (calls w))"
  shows "fetchWithRetry_from fetch_at maxR base a le w =
           fetchWithRetry_from fetch_at maxR base (Suc a)
             (case fetch_at (calls w) of Rejected m \<Rightarrow> Some (OtherError m) | Resolved r \<Rightarrow> le)
             \<lparr> calls = Suc (calls w),
               trace = trace w @ [Fetch, Sleep (spec_delay base a (fetch_at (calls w)))] \<rparr>"
proof (cases "fetch_at (calls w)")
  case (Rejected m)
  from assms(1) have "a < maxR" "a < maxR - 1"
    by simp_all
  with Rejected show ?thesis
    by (subst fetchWithRetry_from.simps) (simp add: emit_def sleep_def Let_def world_update)
next
  case (Resolved r)
  with assms show ?thesis
    by (subst fetchWithRetry_from.simps) (auto simp: emit_def sleep_def Let_def ok_def world_update)
qed

lemma fetchWithRetry_from_last:
  assumes "maxR = Suc a" and "transient (fetch_at (calls w))"
  shows "fetchWithRetry_from fetch_at maxR base a le w =
           (Inl (case (case fetch_at (calls w) of Rejected m \<Rightarrow> Some (OtherError m) | Resolved r \<Rightarrow> le) of
                   Some e \<Rightarrow> e | None \<Rightarrow> OtherError ''Max retries exceeded''),
            \<lparr> calls = Suc (calls w),
              trace = trace w @ final_events base a (fetch_at (calls w)) \<rparr>)"
proof -
  have stop: "\<And>e v. fetchWithRetry_from fetch_at (Suc a) base (Suc a) e v =
           (Inl (case e of Some e \<Rightarrow> e | None \<Rightarrow> OtherError ''Max retries exceeded''), v)"
    by (subst fetchWithRetry_from.simps) simp
  show ?thesis
  proof (cases "fetch_at (calls w)")
    case (Rejected m)
    with assms(1) show ?thesis
      by (subst fetchWithRetry_from.simps) (simp add: stop emit_def sleep_def Let_def world_update)
  next
    case (Resolved r)
    with assms show ?thesis
      by (subst fetchWithRetry_from.simps)
         (auto simp: stop emit_def sleep_def Let_def ok_def world_update)
  qed
qed

lemma fetchWithRetry_from_ok:
  assumes "a < maxR" and "fetch_at (calls w) = Resolved r" and "ok r"
  shows "fetchWithRetry_from fetch_at maxR base a le w =
           (Inr r, \<lparr> calls = Suc (calls w), trace = trace w @ [Fetch] \<rparr>)"
  using assms by (subst fetchWithRetry_from.simps) (simp add: emit_def Let_def world_update)

lemma fetchWithRetry_from_recovers:
  "(\<forall>i<k. transient (fetch_at (calls w + i))) \<Longrightarrow> a + k < maxR
     \<Longrightarrow> fetch_at (calls w + k) = Resolved r \<Longrightarrow> ok r
     \<Longrightarrow> fetchWithRetry_from fetch_at maxR base a le w =
           (Inr r, \<lparr> calls = calls w + k + 1,
                     trace = trace w @ retry_events base fetch_at (calls w) a k @ [Fetch] \<rparr>)"
proof (induction k arbitrary: a le w)
  case 0
  then show ?case
    by (simp add: fetchWithRetry_from_ok)
next
  case (Suc k)
  let ?w = "\<lparr> calls = Suc (calls w),
              trace = trace w @ [Fetch, Sleep (spec_delay base a (fetch_at (calls w)))] \<rparr>"
  let ?le = "case fetch_at (calls w) of Rejected m \<Rightarrow> Some (OtherError m) | Resolved r \<Rightarrow> le"
  from Suc.prems(1) have t0: "transient (fetch_at (calls w))"
    by (metis add.right_neutral zero_less_Suc)
  from Suc.prems(1) have ts: "\<forall>i<k. transient (fetch_at (calls ?w + i))"
    by auto
  from Suc.prems(2) have a: "Suc a < maxR" "Suc a + k < maxR"
    by simp_all
  from Suc.prems(3) have r: "fetch_at (calls ?w + k) = Resolved r"
    by simp
  have "fetchWithRetry_from fetch_at maxR base a le w =
          fetchWithRetry_from fetch_at maxR base (Suc a) ?le ?w"
    using a(1) t0 by (rule fetchWithRetry_from_transient)
  also have "\<dots> = (Inr r, \<lparr> calls = calls ?w + k + 1,
                     trace = trace ?w @ retry_events base fetch_at (calls ?w) (Suc a) k @ [Fetch] \<rparr>)"
    using ts a(2) r Suc.prems(4) by (rule Suc.IH)
  finally show ?case
    by simp
qed

lemma fetchWithRetry_from_exhausts:
  "(\<forall>i<Suc k. transient (fetch_at (calls w + i))) \<Longrightarrow> a + Suc k = maxR
     \<Longrightarrow> fetchWithRetry_from fetch_at maxR base a le w =
           (Inl (case last_rejection fetch_at (calls w) (Suc k) le of
                   Some e \<Rightarrow> e | None \<Rightarrow> OtherError ''Max retries exceeded''),
            \<lparr> calls = calls w + Suc k,
              trace = trace w @ retry_events base fetch_at (calls w) a k
                        @ final_events base (a + k) (fetch_at (calls w + k)) \<rparr>)"
proof (induction k arbitrary: a le w)
  case 0
  then show ?case
    by (simp add: fetchWithRetry_from_last)
next
  case (Suc k)
  let ?w = "\<lparr> calls = Suc (calls w),
              trace = trace w @ [Fetch, Sleep (spec_delay base a (fetch_at (calls w)))] \<rparr>"
  let ?le = "case fetch_at (calls w) of Rejected m \<Rightarrow> Some (OtherError m) | Resolved r \<Rightarrow> le"
  from Suc.prems(1) have t0: "transient (fetch_at (calls w))"
    by (metis add.right_neutral zero_less_Suc)
  from Suc.prems(1) have ts: "\<forall>i<Suc k. transient (fetch_at (calls ?w + i))"
    by auto
  from Suc.prems(2) have a: "Suc a < maxR" "Suc a + Suc k = maxR"
    by simp_all
  have "fetchWithRetry_from fetch_at maxR base a le w =
          fetchWithRetry_from fetch_at maxR base (Suc a) ?le ?w"
    using a(1) t0 by (rule fetchWithRetry_from_transient)
  also have "\<dots> = (Inl (case last_rejection fetch_at (calls ?w) (Suc k) ?le of
                   Some e \<Rightarrow> e | None \<Rightarrow> OtherError ''Max retries exceeded''),
            \<lparr> calls = calls ?w + Suc k,
              trace = trace ?w @ retry_events base fetch_at (calls ?w) (Suc a) k
                        @ final_events base (Suc a + k) (fetch_at (calls ?w + k)) \<rparr>)"
    using ts a(2) by (rule Suc.IH)
  finally show ?case
    by simp
qed

lemma retry_events_length: "length (retry_events base fetch_at c a k) = 2 * k"
  by (induction k arbitrary: c a) simp_all

lemma retry_events_nth:
  "i < k \<Longrightarrow> retry_events base fetch_at c a k ! (2 * i) = Fetch
     \<and> retry_events base fetch_at c a k ! (2 * i + 1) = Sleep (spec_delay base (a + i) (fetch_at (c + i)))"
proof (induction k arbitrary: c a i)
  case 0
  then show ?case by simp
next
  case (Suc k)
  show ?case
  proof (cases i)
    case 0
    then show ?thesis by simp
  next
    case (Suc j)
    with Suc.prems have "j < k" by simp
    from Suc.IH [OF this, of "Suc c" "Suc a"] Suc show ?thesis
      by simp
  qed
qed

section \<open>Input validation\<close>

text \<open>
  C6. \<^verbatim>\<open>validateInput\<close> of the orchestrated function names the offending field of a
  malformed body and narrows a well-formed one. A body that is not an object fails on
  \<open>body\<close>; an object whose goal is missing, not a string, blank or longer than 1000
  code units fails on \<open>goal\<close>; with a good goal, a priority outside the four levels fails
  on \<open>priority\<close>; with both good, a \<open>timeAvailable\<close> that is present and not a string
  fails on \<open>timeAvailable\<close>; every other object yields the \<open>GoalInput\<close>, its goal trimmed.
  An array passes the object test and then fails on \<open>goal\<close>, which it does not have.
\<close>

theorem validateInput_names_field:
  "(b = JUndefined \<or> b = JNull \<or> typeof b \<noteq> TObject \<longrightarrow>
      validateInput b = Inl (ValidationError ''body'' ''Invalid request body''))
   \<and> ((\<forall>g. map_of kvs ''goal'' \<noteq> Some (JStr g)) \<longrightarrow>
      validateInput (JObj kvs) =
        Inl (ValidationError ''goal'' ''Goal is required and must be a non-empty string''))
   \<and> (map_of kvs ''goal'' = Some (JStr g) \<and> list_all is_ws g \<longrightarrow>
      validateInput (JObj kvs) =
        Inl (ValidationError ''goal'' ''Goal is required and must be a non-empty string''))
   \<and> (map_of kvs ''goal'' = Some (JStr g) \<and> \<not> list_all is_ws g \<and> length g > 1000 \<longrightarrow>
      validateInput (JObj kvs) =
        Inl (ValidationError ''goal'' ''Goal must be less than 1000 characters''))
   \<and> (map_of kvs ''goal'' = Some (JStr g) \<and> \<not> list_all is_ws g \<and> length g \<le> 1000
        \<and> (\<forall>p \<in> {''low'', ''medium'', ''high'', ''critical''}.
              map_of kvs ''priority'' \<noteq> Some (JStr p)) \<longrightarrow>
      validateInput (JObj kvs) =
        Inl (ValidationError ''priority'' ''Must be one of: low, medium, high, critical''))
   \<and> (map_of kvs ''goal'' = Some (JStr g) \<and> \<not> list_all is_ws g \<and> length g \<le> 1000
        \<and> map_of kvs ''priority'' = Some (JStr p)
        \<and> p \<in> {''low'', ''medium'', ''high'', ''critical''}
        \<and> map_of kvs ''timeAvailable'' = Some v \<and> v \<noteq> JUndefined \<and> (\<forall>s. v \<noteq> JStr s) \<longrightarrow>
      validateInput (JObj kvs) = Inl (ValidationError ''timeAvailable'' ''Must be a string''))
   \<and> (map_of kvs ''goal'' = Some (JStr g) \<and> \<not> list_all is_ws g \<and> length g \<le> 1000
        \<and> map_of kvs ''priority'' = Some (JStr p)
        \<and> p \<in> {''low'', ''medium'', ''high'', ''critical''}
        \<and> (map_of kvs ''timeAvailable'' = None \<and> t = None
             \<or> map_of kvs ''timeAvailable'' = Some (JStr s) \<and> t = Some s) \<longrightarrow>
      validateInput (JObj kvs) = Inr \<lparr> goal = trim g, priority = p, timeAvailable = t \<rparr>)
   \<and> validateInput (JArr xs) =
        Inl (ValidationError ''goal'' ''Goal is required and must be a non-empty string'')"
  by (auto simp: validateInput_def validPriorities_def trim_empty_iff typeof_string_iff
        arr_includes_iff split: option.splits)

theorem validateInput_names_field_witness:
  "validateInput (JStr ''Learn guitar'') = Inl (ValidationError ''body'' ''Invalid request body'')
   \<and> validateInput (JObj [(''priority'', JStr ''medium'')]) =
        Inl (ValidationError ''goal'' ''Goal is required and must be a non-empty string'')
   \<and> validateInput (JObj [(''goal'', JStr '' ''), (''priority'', JStr ''medium'')]) =
        Inl (ValidationError ''goal'' ''Goal is required and must be a non-empty string'')
   \<and> validateInput (JObj [(''goal'', JStr (replicate 1001 CHR ''a'')), (''priority'', JStr ''medium'')]) =
        Inl (ValidationError ''goal'' ''Goal must be less than 1000 characters'')
   \<and> validateInput (JObj [(''goal'', JStr ''Learn guitar''), (''priority'', JStr ''urgent'')]) =
        Inl (ValidationError ''priority'' ''Must be one of: low, medium, high, critical'')
   \<and> validateInput (JObj [(''goal'', JStr ''Learn guitar''), (''priority'', JStr ''medium''),
                           (''timeAvailable'', JNum (Finite 3))]) =
        Inl (ValidationError ''timeAvailable'' ''Must be a string'')
   \<and> validateInput (JObj [(''goal'', JStr '' Learn guitar ''), (''priority'', JStr ''medium''),
                           (''timeAvailable'', JStr ''2 weeks'')]) =
        Inr \<lparr> goal = ''Learn guitar'', priority = ''medium'', timeAvailable = Some ''2 weeks'' \<rparr>"
proof -
  have t: "trim '' Learn guitar '' = ''Learn guitar''"
    by (simp add: trim_def is_ws_def)
  have 1: "validateInput (JStr ''Learn guitar'') = Inl (ValidationError ''body'' ''Invalid request body'')"
    using validateInput_names_field [of "JStr ''Learn guitar''"] by simp
  have 2: "validateInput (JObj [(''priority'', JStr ''medium'')]) =
        Inl (ValidationError ''goal'' ''Goal is required and must be a non-empty string'')"
    using validateInput_names_field [of _ "[(''priority'', JStr ''medium'')]"] by simp
  have 3: "validateInput (JObj [(''goal'', JStr '' ''), (''priority'', JStr ''medium'')]) =
        Inl (ValidationError ''goal'' ''Goal is required and must be a non-empty string'')"
    using validateInput_names_field
            [of _ "[(''goal'', JStr '' ''), (''priority'', JStr ''medium'')]" "'' ''"]
    by (simp add: is_ws_def)
  have 4: "validateInput (JObj [(''goal'', JStr (replicate 1001 CHR ''a'')), (''priority'', JStr ''medium'')]) =
        Inl (ValidationError ''goal'' ''Goal must be less than 1000 characters'')"
    using validateInput_names_field
            [of _ "[(''goal'', JStr (replicate 1001 CHR ''a'')), (''priority'', JStr ''medium'')]"
                "replicate 1001 CHR ''a''"]
    by (simp add: is_ws_def list_all_iff)
  have 5: "validateInput (JObj [(''goal'', JStr ''Learn guitar''), (''priority'', JStr ''urgent'')]) =
        Inl (ValidationError ''priority'' ''Must be one of: low, medium, high, critical'')"
    using validateInput_names_field
            [of _ "[(''goal'', JStr ''Learn guitar''), (''priority'', JStr ''urgent'')]" "''Learn guitar''"]
    by (simp add: is_ws_def)
  have 6: "validateInput (JObj [(''goal'', JStr ''Learn guitar''), (''priority'', JStr ''medium''),
                           (''timeAvailable'', JNum (Finite 3))]) =
        Inl (ValidationError ''timeAvailable'' ''Must be a string'')"
    using validateInput_names_field
            [of _ "[(''goal'', JStr ''Learn guitar''), (''priority'', JStr ''medium''),
                    (''timeAvailable'', JNum (Finite 3))]" "''Learn guitar''" "''medium''"
                "JNum (Finite 3)"]
    by (simp add: is_ws_def)
  have 7: "validateInput (JObj [(''goal'', JStr '' Learn guitar ''), (''priority'', JStr ''medium''),
                           (''timeAvailable'', JStr ''2 weeks'')]) =
        Inr \<lparr> goal = ''Learn guitar'', priority = ''medium'', timeAvailable = Some ''2 weeks'' \<rparr>"
    using validateInput_names_field
            [of _ "[(''goal'', JStr '' Learn guitar ''), (''priority'', JStr ''medium''),
                    (''timeAvailable'', JStr ''2 weeks'')]" "'' Learn guitar ''" "''medium''"
                _ "Some ''2 weeks''" "''2 weeks''"]
    by (simp add: is_ws_def t)
  from 1 2 3 4 5 6 7 show ?thesis by blast
qed

section \<open>Response parser\<close>

text \<open>
  C7. \<^verbatim>\<open>parseJSONResponse\<close> trims, strips an opening fence (with or without the
  \<open>json\<close> tag) and a closing fence if present, trims again and hands the rest to
  \<^verbatim>\<open>JSON.parse\<close>. The first six conjuncts give the text handed to the parser for every
  input \<open>c\<close>, by the shape of the trimmed input: a tagged fence on both sides, a tagged
  opening fence alone, an untagged fence on both sides, an untagged opening fence alone, a
  closing fence alone, and no fence; in each the fences that are present are removed and
  the rest is trimmed. Then, for every parser \<open>P\<close> and every document \<open>d\<close> that itself
  neither starts nor ends with a fence: \<open>d\<close> wrapped in fences, with any white space
  \<open>o1\<close>, \<open>o2\<close> around the fences and \<open>w1\<close>, \<open>w2\<close> inside them (all four possibly
  empty), parses exactly as \<open>d\<close> alone, with the tag and, unless the wrapped text itself
  begins with \<open>json\<close>, without it; an input without fences parses as \<open>P\<close> on the
  trimmed input, so the function only wraps \<^verbatim>\<open>JSON.parse\<close>; and whenever \<open>P\<close> rejects the
  stripped remainder the result is the parse error, never a value.
\<close>

theorem parseJSONResponse_fences:
  "(trim c = fence @ ''json'' @ v @ fence \<longrightarrow> cleanContent c = trim v)
   \<and> (trim c = fence @ ''json'' @ u \<and> \<not> endsWith u fence \<longrightarrow> cleanContent c = trim u)
   \<and> (trim c = fence @ v @ fence \<and> \<not> startsWith (v @ fence) ''json'' \<longrightarrow>
        cleanContent c = trim v)
   \<and> (trim c = fence @ u \<and> \<not> startsWith u ''json'' \<and> \<not> endsWith u fence \<longrightarrow>
        cleanContent c = trim u)
   \<and> (\<not> startsWith (trim c) fence \<and> trim c = v @ fence \<longrightarrow> cleanContent c = trim v)
   \<and> (\<not> startsWith (trim c) fence \<and> \<not> endsWith (trim c) fence \<longrightarrow> cleanContent c = trim c)
   \<and> (list_all is_ws o1 \<and> list_all is_ws o2 \<and> list_all is_ws w1 \<and> list_all is_ws w2
      \<and> \<not> startsWith (trim d) fence \<and> \<not> endsWith (trim d) fence \<longrightarrow>
        parseJSONResponse P (o1 @ fence @ ''json'' @ w1 @ d @ w2 @ fence @ o2)
          = parseJSONResponse P d
      \<and> (\<not> startsWith (w1 @ d @ w2 @ fence) ''json'' \<longrightarrow>
           parseJSONResponse P (o1 @ fence @ w1 @ d @ w2 @ fence @ o2) = parseJSONResponse P d))
   \<and> (\<not> startsWith (trim c) fence \<and> \<not> endsWith (trim c) fence \<longrightarrow>
        parseJSONResponse P c =
          (case P (trim c) of Some x \<Rightarrow> Inr x
           | None \<Rightarrow> Inl (OtherError ''Failed to parse LLM response as JSON'')))
   \<and> (P (cleanContent c) = None \<longrightarrow>
        parseJSONResponse P c = Inl (OtherError ''Failed to parse LLM response as JSON''))
   \<and> (P (cleanContent c) = Some x \<longrightarrow> parseJSONResponse P c = Inr x)"
proof (intro conjI impI)
  assume "trim c = fence @ ''json'' @ v @ fence"
  then show "cleanContent c = trim v" by (rule cleanContent_open_tagged_close)
next
  assume "trim c = fence @ ''json'' @ u \<and> \<not> endsWith u fence"
  then show "cleanContent c = trim u" by (simp add: cleanContent_open_tagged)
next
  assume "trim c = fence @ v @ fence \<and> \<not> startsWith (v @ fence) ''json''"
  then show "cleanContent c = trim v" by (simp add: cleanContent_open_close)
next
  assume "trim c = fence @ u \<and> \<not> startsWith u ''json'' \<and> \<not> endsWith u fence"
  then show "cleanContent c = trim u" by (simp add: cleanContent_open)
next
  assume "\<not> startsWith (trim c) fence \<and> trim c = v @ fence"
  then show "cleanContent c = trim v" using cleanContent_close by blast
next
  assume "\<not> startsWith (trim c) fence \<and> \<not> endsWith (trim c) fence"
  then show "cleanContent c = trim c" by (simp add: cleanContent_bare)
next
  assume h: "list_all is_ws o1 \<and> list_all is_ws o2 \<and> list_all is_ws w1 \<and> list_all is_ws w2
      \<and> \<not> startsWith (trim d) fence \<and> \<not> endsWith (trim d) fence"
  then have o: "list_all is_ws o1" "list_all is_ws o2" and w: "list_all is_ws w1" "list_all is_ws w2"
    and n: "\<not> startsWith (trim d) fence" "\<not> endsWith (trim d) fence" by simp_all
  from n have b: "cleanContent d = trim d" by (rule cleanContent_bare)
  have t1: "trim (o1 @ fence @ ''json'' @ w1 @ d @ w2 @ fence @ o2)
              = fence @ ''json'' @ (w1 @ d @ w2) @ fence"
    using trim_outer_fenced [OF o, of "''json'' @ w1 @ d @ w2"] by simp
  have "cleanContent (o1 @ fence @ ''json'' @ w1 @ d @ w2 @ fence @ o2) = trim (w1 @ d @ w2)"
    using t1 by (rule cleanContent_open_tagged_close)
  also have "\<dots> = trim d" using w by (rule trim_ws_append)
  finally show "parseJSONResponse P (o1 @ fence @ ''json'' @ w1 @ d @ w2 @ fence @ o2)
          = parseJSONResponse P d"
    using b by (simp only: parseJSONResponse_def)
  assume j: "\<not> startsWith (w1 @ d @ w2 @ fence) ''json''"
  have t2: "trim (o1 @ fence @ w1 @ d @ w2 @ fence @ o2) = fence @ (w1 @ d @ w2) @ fence"
    using trim_outer_fenced [OF o, of "w1 @ d @ w2"] by simp
  have "cleanContent (o1 @ fence @ w1 @ d @ w2 @ fence @ o2) = trim (w1 @ d @ w2)"
    using t2 by (rule cleanContent_open_close) (use j in simp)
  also have "\<dots> = trim d" using w by (rule trim_ws_append)
  finally show "parseJSONResponse P (o1 @ fence @ w1 @ d @ w2 @ fence @ o2) = parseJSONResponse P d"
    using b by (simp only: parseJSONResponse_def)
next
  assume "\<not> startsWith (trim c) fence \<and> \<not> endsWith (trim c) fence"
  then have "cleanContent c = trim c" by (simp add: cleanContent_bare)
  then show "parseJSONResponse P c =
          (case P (trim c) of Some x \<Rightarrow> Inr x
           | None \<Rightarrow> Inl (OtherError ''Failed to parse LLM response as JSON''))"
    by (simp only: parseJSONResponse_def)
next
  assume "P (cleanContent c) = None"
  then show "parseJSONResponse P c = Inl (OtherError ''Failed to parse LLM response as JSON'')"
    by (simp add: parseJSONResponse_def)
next
  assume "P (cleanContent c) = Some x"
  then show "parseJSONResponse P c = Inr x"
    by (simp add: parseJSONResponse_def)
qed

theorem parseJSONResponse_fences_witness:
  "parseJSONResponse parse_a1
     ('' '' @ fence @ ''json'' @ [CHR 0x0A] @ doc_a1 @ [CHR 0x0A] @ fence @ [CHR 0x0A])
     = Inr (JObj [(''a'', JNum (Finite 1))])
   \<and> parseJSONResponse parse_a1 (fence @ [CHR 0x0A] @ doc_a1 @ [CHR 0x0A] @ fence)
     = Inr (JObj [(''a'', JNum (Finite 1))])
   \<and> parseJSONResponse parse_a1 (fence @ doc_a1 @ fence) = Inr (JObj [(''a'', JNum (Finite 1))])
   \<and> cleanContent (fence @ ''json'' @ doc_a1 @ fence) = doc_a1
   \<and> cleanContent (fence @ ''json'' @ doc_a1) = doc_a1
   \<and> cleanContent (fence @ doc_a1 @ fence) = doc_a1
   \<and> cleanContent (fence @ doc_a1) = doc_a1
   \<and> cleanContent (doc_a1 @ fence) = doc_a1
   \<and> cleanContent doc_a1 = doc_a1
   \<and> parseJSONResponse parse_a1 doc_a1 = Inr (JObj [(''a'', JNum (Finite 1))])
   \<and> parseJSONResponse parse_a1 ''not json''
     = Inl (OtherError ''Failed to parse LLM response as JSON'')"
proof -
  let ?V = "JObj [(''a'', JNum (Finite 1))]"
  have td: "trim doc_a1 = doc_a1"
    by (rule trim_fixed) (simp add: doc_a1_def quoted_def is_ws_def)
  have tn: "trim ''not json'' = ''not json''"
    by (rule trim_fixed) (simp add: is_ws_def)
  have nf: "\<not> startsWith doc_a1 fence" "\<not> endsWith doc_a1 fence"
    "\<not> startsWith doc_a1 ''json''" "\<not> startsWith (doc_a1 @ fence) ''json''"
    "\<not> startsWith (doc_a1 @ fence) fence"
    "\<not> startsWith ([CHR 0x0A] @ doc_a1 @ [CHR 0x0A] @ fence) ''json''"
    by (simp_all add: startsWith_def endsWith_def doc_a1_def quoted_def fence_def)
  have nn: "\<not> startsWith ''not json'' fence" "\<not> endsWith ''not json'' fence"
    by (simp_all add: startsWith_def endsWith_def fence_def)
  have ws: "list_all is_ws [CHR 0x0A]" "list_all is_ws '' ''" "list_all is_ws []"
    by (simp_all add: is_ws_def)
  have pd: "parse_a1 doc_a1 = Some ?V"
    by (simp add: parse_a1_def parse_table_def)
  have pn: "parse_a1 ''not json'' = None"
    by (simp add: parse_a1_def parse_table_def doc_a1_def quoted_def)
  have t1: "trim (fence @ ''json'' @ doc_a1 @ fence) = fence @ ''json'' @ doc_a1 @ fence"
    by (rule trim_fixed) (simp add: fence_def fence_not_ws)
  have t2: "trim (fence @ ''json'' @ doc_a1) = fence @ ''json'' @ doc_a1"
    by (rule trim_fixed) (simp add: fence_def doc_a1_def quoted_def is_ws_def)
  have t3: "trim (fence @ doc_a1 @ fence) = fence @ doc_a1 @ fence"
    by (rule trim_fixed) (simp add: fence_def fence_not_ws)
  have t4: "trim (fence @ doc_a1) = fence @ doc_a1"
    by (rule trim_fixed) (simp add: fence_def doc_a1_def quoted_def is_ws_def)
  have t5: "trim (doc_a1 @ fence) = doc_a1 @ fence"
    by (rule trim_fixed) (simp add: fence_def doc_a1_def quoted_def is_ws_def)
  have bare: "parseJSONResponse parse_a1 doc_a1 = Inr ?V \<and> cleanContent doc_a1 = doc_a1"
    using parseJSONResponse_fences
            [where c = doc_a1 and v = "[]" and u = "[]" and ?o1.0 = "[]" and ?o2.0 = "[]"
               and ?w1.0 = "[]" and ?w2.0 = "[]" and d = doc_a1 and P = parse_a1 and x = ?V]
          td nf pd
    by simp
  have outer: "parseJSONResponse parse_a1
     ('' '' @ fence @ ''json'' @ [CHR 0x0A] @ doc_a1 @ [CHR 0x0A] @ fence @ [CHR 0x0A])
       = parseJSONResponse parse_a1 doc_a1"
    using parseJSONResponse_fences
            [where c = doc_a1 and v = "[]" and u = "[]" and ?o1.0 = "'' ''" and ?o2.0 = "[CHR 0x0A]"
               and ?w1.0 = "[CHR 0x0A]" and ?w2.0 = "[CHR 0x0A]" and d = doc_a1 and P = parse_a1
               and x = ?V]
          td nf ws
    by simp
  have untagged: "parseJSONResponse parse_a1 (fence @ [CHR 0x0A] @ doc_a1 @ [CHR 0x0A] @ fence)
       = parseJSONResponse parse_a1 doc_a1"
    using parseJSONResponse_fences
            [where c = doc_a1 and v = "[]" and u = "[]" and ?o1.0 = "[]" and ?o2.0 = "[]"
               and ?w1.0 = "[CHR 0x0A]" and ?w2.0 = "[CHR 0x0A]" and d = doc_a1 and P = parse_a1
               and x = ?V]
          td nf ws
    by simp
  have tight: "parseJSONResponse parse_a1 (fence @ doc_a1 @ fence) = parseJSONResponse parse_a1 doc_a1"
    using parseJSONResponse_fences
            [where c = doc_a1 and v = "[]" and u = "[]" and ?o1.0 = "[]" and ?o2.0 = "[]"
               and ?w1.0 = "[]" and ?w2.0 = "[]" and d = doc_a1 and P = parse_a1 and x = ?V]
          td nf ws
    by simp
  have b1: "cleanContent (fence @ ''json'' @ doc_a1 @ fence) = doc_a1"
    using parseJSONResponse_fences
            [where c = "fence @ ''json'' @ doc_a1 @ fence" and v = doc_a1 and u = "[]"
               and ?o1.0 = "[]" and ?o2.0 = "[]" and ?w1.0 = "[]" and ?w2.0 = "[]"
               and d = doc_a1 and P = parse_a1 and x = ?V]
          t1 td
    by simp
  have b2: "cleanContent (fence @ ''json'' @ doc_a1) = doc_a1"
    using parseJSONResponse_fences
            [where c = "fence @ ''json'' @ doc_a1" and v = "[]" and u = doc_a1
               and ?o1.0 = "[]" and ?o2.0 = "[]" and ?w1.0 = "[]" and ?w2.0 = "[]"
               and d = doc_a1 and P = parse_a1 and x = ?V]
          t2 td nf
    by simp
  have b3: "cleanContent (fence @ doc_a1 @ fence) = doc_a1"
    using parseJSONResponse_fences
            [where c = "fence @ doc_a1 @ fence" and v = doc_a1 and u = "[]"
               and ?o1.0 = "[]" and ?o2.0 = "[]" and ?w1.0 = "[]" and ?w2.0 = "[]"
               and d = doc_a1 and P = parse_a1 and x = ?V]
          t3 td nf
    by simp
  have b4: "cleanContent (fence @ doc_a1) = doc_a1"
    using parseJSONResponse_fences
            [where c = "fence @ doc_a1" and v = "[]" and u = doc_a1
               and ?o1.0 = "[]" and ?o2.0 = "[]" and ?w1.0 = "[]" and ?w2.0 = "[]"
               and d = doc_a1 and P = parse_a1 and x = ?V]
          t4 td nf
    by simp
  have b5: "cleanContent (doc_a1 @ fence) = doc_a1"
    using parseJSONResponse_fences
            [where c = "doc_a1 @ fence" and v = doc_a1 and u = "[]"
               and ?o1.0 = "[]" and ?o2.0 = "[]" and ?w1.0 = "[]" and ?w2.0 = "[]"
               and d = doc_a1 and P = parse_a1 and x = ?V]
          t5 td nf
    by simp
  have bad: "parseJSONResponse parse_a1 ''not json''
     = Inl (OtherError ''Failed to parse LLM response as JSON'')"
    using parseJSONResponse_fences
            [where c = "''not json''" and v = "[]" and u = "[]" and ?o1.0 = "[]" and ?o2.0 = "[]"
               and ?w1.0 = "[]" and ?w2.0 = "[]" and d = doc_a1 and P = parse_a1 and x = ?V]
          tn nn pn
    by simp
  from bare outer untagged tight b1 b2 b3 b4 b5 bad show ?thesis by simp
qed

section \<open>Retrying gateway client\<close>

text \<open>
  C8. \<^verbatim>\<open>fetchWithRetry\<close> retries transient failures (no response, status 429, status
  5xx) with exponential back-off up to the retry limit, from any state of the world, for
  any limit \<open>maxR\<close> and any base delay. If the first \<open>k\<close> answers are transient
  failures, \<open>k\<close> is below the limit and the next answer is a 2xx response, that response
  is returned after exactly \<open>k\<close> retries (\<open>k + 1\<close> requests), each failure being
  followed by its delay and the next request. If the first \<open>maxR\<close> answers are
  transient failures, the call fails after exactly \<open>maxR\<close> requests and never returns
  a response; the error is the one of the last failed connection, or
  \<open>Max retries exceeded\<close> when every answer was a response. The delay after the failure
  of attempt \<open>j\<close> is \<open>base * 2^j * 2\<close> for a status 429 and \<open>base * 2^j\<close>
  otherwise. With a limit of 0 no request is sent. The last two conjuncts are the two
  sequences of the specification at a limit of 3: 429, 429 and a 2xx response, with the
  delays \<open>base * 2^0 * 2\<close> and \<open>base * 2^1 * 2\<close>; and 5xx three times, whatever
  a fourth answer would be, with the delay \<open>base * 2^attempt\<close> after each of them.
\<close>

theorem fetchWithRetry_backoff:
  "((\<forall>i<k. transient (fetch_at (calls w + i))) \<and> k < maxR
      \<and> fetch_at (calls w + k) = Resolved r \<and> ok r \<longrightarrow>
        fetchWithRetry fetch_at maxR baseDelay w =
          (Inr r, \<lparr> calls = calls w + k + 1,
                    trace = trace w @ retry_events baseDelay fetch_at (calls w) 0 k @ [Fetch] \<rparr>))
   \<and> (0 < maxR \<and> (\<forall>i<maxR. transient (fetch_at (calls w + i))) \<longrightarrow>
        fetchWithRetry fetch_at maxR baseDelay w =
          (Inl (case last_rejection fetch_at (calls w) maxR None of
                  Some e \<Rightarrow> e | None \<Rightarrow> OtherError ''Max retries exceeded''),
           \<lparr> calls = calls w + maxR,
             trace = trace w @ retry_events baseDelay fetch_at (calls w) 0 (maxR - 1)
                       @ final_events baseDelay (maxR - 1) (fetch_at (calls w + (maxR - 1))) \<rparr>))
   \<and> length (retry_events baseDelay fetch_at (calls w) 0 k) = 2 * k
   \<and> (j < k \<longrightarrow>
        retry_events baseDelay fetch_at (calls w) 0 k ! (2 * j) = Fetch
        \<and> retry_events baseDelay fetch_at (calls w) 0 k ! (2 * j + 1) =
            Sleep (case fetch_at (calls w + j) of
                     Rejected m \<Rightarrow> baseDelay * 2 ^ j
                   | Resolved s \<Rightarrow> if resp_status s = 429 then baseDelay * 2 ^ j * 2
                                  else baseDelay * 2 ^ j))
   \<and> fetchWithRetry fetch_at 0 baseDelay w = (Inl (OtherError ''Max retries exceeded''), w)
   \<and> (fetch_at (calls w) = Resolved r0 \<and> resp_status r0 = 429
      \<and> fetch_at (calls w + 1) = Resolved r1 \<and> resp_status r1 = 429
      \<and> fetch_at (calls w + 2) = Resolved r2 \<and> ok r2 \<longrightarrow>
        fetchWithRetry fetch_at 3 baseDelay w =
          (Inr r2, \<lparr> calls = calls w + 3,
                     trace = trace w @ [Fetch, Sleep (baseDelay * 2 ^ 0 * 2),
                                        Fetch, Sleep (baseDelay * 2 ^ 1 * 2), Fetch] \<rparr>))
   \<and> (fetch_at (calls w) = Resolved s0 \<and> resp_status s0 \<ge> 500
      \<and> fetch_at (calls w + 1) = Resolved s1 \<and> resp_status s1 \<ge> 500
      \<and> fetch_at (calls w + 2) = Resolved s2 \<and> resp_status s2 \<ge> 500 \<longrightarrow>
        fetchWithRetry fetch_at 3 baseDelay w =
          (Inl (OtherError ''Max retries exceeded''),
           \<lparr> calls = calls w + 3,
             trace = trace w @ [Fetch, Sleep (baseDelay * 2 ^ 0),
                                Fetch, Sleep (baseDelay * 2 ^ 1),
                                Fetch, Sleep (baseDelay * 2 ^ 2)] \<rparr>))"
proof (intro conjI impI)
  assume "(\<forall>i<k. transient (fetch_at (calls w + i))) \<and> k < maxR
            \<and> fetch_at (calls w + k) = Resolved r \<and> ok r"
  then have h: "\<forall>i<k. transient (fetch_at (calls w + i))" "0 + k < maxR"
    "fetch_at (calls w + k) = Resolved r" "ok r"
    by simp_all
  show "fetchWithRetry fetch_at maxR baseDelay w =
          (Inr r, \<lparr> calls = calls w + k + 1,
                    trace = trace w @ retry_events baseDelay fetch_at (calls w) 0 k @ [Fetch] \<rparr>)"
    unfolding fetchWithRetry_def using h by (rule fetchWithRetry_from_recovers)
next
  assume "0 < maxR \<and> (\<forall>i<maxR. transient (fetch_at (calls w + i)))"
  then obtain n where n: "maxR = Suc n" and t: "\<forall>i<Suc n. transient (fetch_at (calls w + i))"
    by (cases maxR) auto
  have "0 + Suc n = maxR"
    using n by simp
  with t have "fetchWithRetry_from fetch_at maxR baseDelay 0 None w =
           (Inl (case last_rejection fetch_at (calls w) (Suc n) None of
                   Some e \<Rightarrow> e | None \<Rightarrow> OtherError ''Max retries exceeded''),
            \<lparr> calls = calls w + Suc n,
              trace = trace w @ retry_events baseDelay fetch_at (calls w) 0 n
                        @ final_events baseDelay (0 + n) (fetch_at (calls w + n)) \<rparr>)"
    by (rule fetchWithRetry_from_exhausts)
  then show "fetchWithRetry fetch_at maxR baseDelay w =
          (Inl (case last_rejection fetch_at (calls w) maxR None of
                  Some e \<Rightarrow> e | None \<Rightarrow> OtherError ''Max retries exceeded''),
           \<lparr> calls = calls w + maxR,
             trace = trace w @ retry_events baseDelay fetch_at (calls w) 0 (maxR - 1)
                       @ final_events baseDelay (maxR - 1) (fetch_at (calls w + (maxR - 1))) \<rparr>)"
    by (simp add: fetchWithRetry_def n)
next
  show "length (retry_events baseDelay fetch_at (calls w) 0 k) = 2 * k"
    by (rule retry_events_length)
next
  assume "j < k"
  then show "retry_events baseDelay fetch_at (calls w) 0 k ! (2 * j) = Fetch"
    by (simp add: retry_events_nth)
next
  assume "j < k"
  then have "retry_events baseDelay fetch_at (calls w) 0 k ! (2 * j + 1) =
               Sleep (spec_delay baseDelay (0 + j) (fetch_at (calls w + j)))"
    using retry_events_nth [of j k baseDelay fetch_at "calls w" 0] by blast
  then show "retry_events baseDelay fetch_at (calls w) 0 k ! (2 * j + 1) =
            Sleep (case fetch_at (calls w + j) of
                     Rejected m \<Rightarrow> baseDelay * 2 ^ j
                   | Resolved s \<Rightarrow> if resp_status s = 429 then baseDelay * 2 ^ j * 2
                                  else baseDelay * 2 ^ j)"
    by (cases "fetch_at (calls w + j)") simp_all
next
  show "fetchWithRetry fetch_at 0 baseDelay w = (Inl (OtherError ''Max retries exceeded''), w)"
    by (simp add: fetchWithRetry_def fetchWithRetry_from.simps [of _ 0])
next
  assume "fetch_at (calls w) = Resolved r0 \<and> resp_status r0 = 429
      \<and> fetch_at (calls w + 1) = Resolved r1 \<and> resp_status r1 = 429
      \<and> fetch_at (calls w + 2) = Resolved r2 \<and> ok r2"
  then show "fetchWithRetry fetch_at 3 baseDelay w =
          (Inr r2, \<lparr> calls = calls w + 3,
                     trace = trace w @ [Fetch, Sleep (baseDelay * 2 ^ 0 * 2),
                                        Fetch, Sleep (baseDelay * 2 ^ 1 * 2), Fetch] \<rparr>)"
    by (simp add: fetchWithRetry_def fetchWithRetry_from.simps [of _ 3] ok_def emit_def
          sleep_def Let_def)
next
  assume "fetch_at (calls w) = Resolved s0 \<and> resp_status s0 \<ge> 500
      \<and> fetch_at (calls w + 1) = Resolved s1 \<and> resp_status s1 \<ge> 500
      \<and> fetch_at (calls w + 2) = Resolved s2 \<and> resp_status s2 \<ge> 500"
  then show "fetchWithRetry fetch_at 3 baseDelay w =
          (Inl (OtherError ''Max retries exceeded''),
           \<lparr> calls = calls w + 3,
             trace = trace w @ [Fetch, Sleep (baseDelay * 2 ^ 0),
                                Fetch, Sleep (baseDelay * 2 ^ 1),
                                Fetch, Sleep (baseDelay * 2 ^ 2)] \<rparr>)"
    by (simp add: fetchWithRetry_def fetchWithRetry_from.simps [of _ 3] ok_def emit_def
          sleep_def Let_def)
qed

theorem fetchWithRetry_backoff_witness:
  "fetchWithRetry (script [reply 429 ''slow down'', reply 429 ''slow down'', reply 200 ''{}'']) 3 1000 world0 =
     (Inr \<lparr> resp_status = 200, resp_text = ''{}'', resp_json = Inl ''Unexpected token'' \<rparr>,
      \<lparr> calls = 3, trace = [Fetch, Sleep 2000, Fetch, Sleep 4000, Fetch] \<rparr>)
   \<and> fetchWithRetry (script [reply 500 ''down'', reply 500 ''down'', reply 500 ''down'', reply 500 ''down''])
        3 1000 world0 =
     (Inl (OtherError ''Max retries exceeded''),
      \<lparr> calls = 3, trace = [Fetch, Sleep 1000, Fetch, Sleep 2000, Fetch, Sleep 4000] \<rparr>)
   \<and> fetchWithRetry (script [reply 429 ''slow down'', reply 429 ''slow down'', reply 429 ''slow down'',
                             reply 200 ''{}'']) 4 1000 world0 =
     (Inr \<lparr> resp_status = 200, resp_text = ''{}'', resp_json = Inl ''Unexpected token'' \<rparr>,
      \<lparr> calls = 4, trace = [Fetch, Sleep 2000, Fetch, Sleep 4000, Fetch, Sleep 8000, Fetch] \<rparr>)
   \<and> fetchWithRetry (script [Rejected ''connection reset'', reply 503 ''busy'', reply 200 ''{}''])
        3 1000 world0 =
     (Inr \<lparr> resp_status = 200, resp_text = ''{}'', resp_json = Inl ''Unexpected token'' \<rparr>,
      \<lparr> calls = 3, trace = [Fetch, Sleep 1000, Fetch, Sleep 2000, Fetch] \<rparr>)
   \<and> fetchWithRetry (script [reply 502 ''bad gateway'', Rejected ''connection reset'']) 2 1000 world0 =
     (Inl (OtherError ''connection reset''),
      \<lparr> calls = 2, trace = [Fetch, Sleep 1000, Fetch] \<rparr>)
   \<and> fetchWithRetry (script [reply 200 ''{}'']) 0 1000 world0 =
     (Inl (OtherError ''Max retries exceeded''), world0)"
proof -
  let ?ok = "\<lparr> resp_status = 200, resp_text = ''{}'', resp_json = Inl ''Unexpected token'' \<rparr>"
  let ?slow = "\<lparr> resp_status = 429, resp_text = ''slow down'', resp_json = Inl ''Unexpected token'' \<rparr>"
  let ?down = "\<lparr> resp_status = 500, resp_text = ''down'', resp_json = Inl ''Unexpected token'' \<rparr>"
  let ?f1 = "script [reply 429 ''slow down'', reply 429 ''slow down'', reply 200 ''{}'']"
  let ?f2 = "script [reply 500 ''down'', reply 500 ''down'', reply 500 ''down'', reply 500 ''down'']"
  let ?f3 = "script [reply 429 ''slow down'', reply 429 ''slow down'', reply 429 ''slow down'',
                     reply 200 ''{}'']"
  let ?f4 = "script [Rejected ''connection reset'', reply 503 ''busy'', reply 200 ''{}'']"
  let ?f5 = "script [reply 502 ''bad gateway'', Rejected ''connection reset'']"
  have a: "fetchWithRetry ?f1 3 1000 world0 =
     (Inr ?ok, \<lparr> calls = 3, trace = [Fetch, Sleep 2000, Fetch, Sleep 4000, Fetch] \<rparr>)"
    using fetchWithRetry_backoff
            [where fetch_at = ?f1 and w = world0 and baseDelay = 1000 and maxR = 3 and k = 0
               and j = 0 and r = ?ok and ?r0.0 = ?slow and ?r1.0 = ?slow and ?r2.0 = ?ok
               and ?s0.0 = ?down and ?s1.0 = ?down and ?s2.0 = ?down]
    by (simp add: script_def reply_def world0_def ok_def)
  have b: "fetchWithRetry ?f2 3 1000 world0 =
     (Inl (OtherError ''Max retries exceeded''),
      \<lparr> calls = 3, trace = [Fetch, Sleep 1000, Fetch, Sleep 2000, Fetch, Sleep 4000] \<rparr>)"
    using fetchWithRetry_backoff
            [where fetch_at = ?f2 and w = world0 and baseDelay = 1000 and maxR = 3 and k = 0
               and j = 0 and r = ?ok and ?r0.0 = ?slow and ?r1.0 = ?slow and ?r2.0 = ?ok
               and ?s0.0 = ?down and ?s1.0 = ?down and ?s2.0 = ?down]
    by (simp add: script_def reply_def world0_def)
  have t3: "\<forall>i<3. transient (?f3 (calls world0 + i))"
    by (simp add: numeral_3_eq_3 All_less_Suc script_def reply_def world0_def)
  have e3: "retry_events 1000 ?f3 (calls world0) 0 3 = [Fetch, Sleep 2000, Fetch, Sleep 4000, Fetch, Sleep 8000]"
    by (simp add: numeral_3_eq_3 script_def reply_def world0_def)
  have c: "fetchWithRetry ?f3 4 1000 world0 =
     (Inr ?ok, \<lparr> calls = 4, trace = [Fetch, Sleep 2000, Fetch, Sleep 4000, Fetch, Sleep 8000, Fetch] \<rparr>)"
    using fetchWithRetry_backoff
            [where fetch_at = ?f3 and w = world0 and baseDelay = 1000 and maxR = 4 and k = 3
               and j = 0 and r = ?ok and ?r0.0 = ?slow and ?r1.0 = ?slow and ?r2.0 = ?ok
               and ?s0.0 = ?down and ?s1.0 = ?down and ?s2.0 = ?down]
          t3 e3
    by (simp add: script_def reply_def world0_def ok_def)
  have t4: "\<forall>i<2. transient (?f4 (calls world0 + i))"
    by (simp add: numeral_2_eq_2 All_less_Suc script_def reply_def world0_def)
  have e4: "retry_events 1000 ?f4 (calls world0) 0 2 = [Fetch, Sleep 1000, Fetch, Sleep 2000]"
    by (simp add: numeral_2_eq_2 script_def reply_def world0_def)
  have d: "fetchWithRetry ?f4 3 1000 world0 =
     (Inr ?ok, \<lparr> calls = 3, trace = [Fetch, Sleep 1000, Fetch, Sleep 2000, Fetch] \<rparr>)"
    using fetchWithRetry_backoff
            [where fetch_at = ?f4 and w = world0 and baseDelay = 1000 and maxR = 3 and k = 2
               and j = 0 and r = ?ok and ?r0.0 = ?slow and ?r1.0 = ?slow and ?r2.0 = ?ok
               and ?s0.0 = ?down and ?s1.0 = ?down and ?s2.0 = ?down]
          t4 e4
    by (simp add: script_def reply_def world0_def ok_def)
  have t5: "\<forall>i<2. transient (?f5 (calls world0 + i))"
    by (simp add: numeral_2_eq_2 All_less_Suc script_def reply_def world0_def)
  have e5: "retry_events 1000 ?f5 (calls world0) 0 (2 - 1) = [Fetch, Sleep 1000]"
    "final_events 1000 (2 - 1) (?f5 (calls world0 + (2 - 1))) = [Fetch]"
    "last_rejection ?f5 (calls world0) 2 None = Some (OtherError ''connection reset'')"
    by (simp_all add: numeral_2_eq_2 script_def reply_def world0_def)
  have e: "fetchWithRetry ?f5 2 1000 world0 =
     (Inl (OtherError ''connection reset''), \<lparr> calls = 2, trace = [Fetch, Sleep 1000, Fetch] \<rparr>)"
    using fetchWithRetry_backoff
            [where fetch_at = ?f5 and w = world0 and baseDelay = 1000 and maxR = 2 and k = 0
               and j = 0 and r = ?ok and ?r0.0 = ?slow and ?r1.0 = ?slow and ?r2.0 = ?ok
               and ?s0.0 = ?down and ?s1.0 = ?down and ?s2.0 = ?down]
          t5 e5
    by (simp add: world0_def)
  have f: "fetchWithRetry (script [reply 200 ''{}'']) 0 1000 world0 =
     (Inl (OtherError ''Max retries exceeded''), world0)"
    using fetchWithRetry_backoff
            [where fetch_at = "script [reply 200 ''{}'']" and w = world0 and baseDelay = 1000
               and maxR = 0 and k = 0
               and j = 0 and r = ?ok and ?r0.0 = ?slow and ?r1.0 = ?slow and ?r2.0 = ?ok
               and ?s0.0 = ?down and ?s1.0 = ?down and ?s2.0 = ?down]
    by simp
  from a b c d e f show ?thesis by simp
qed

text \<open>
  C1 does not hold of \<^verbatim>\<open>fetchWithRetry\<close>: the \<^verbatim>\<open>throw\<close> of the 4xx branch is inside
  the \<^verbatim>\<open>try\<close>, so the \<^verbatim>\<open>catch\<close> of the loop takes it, waits and goes on. After a 404
  the client waits 1000 ms and sends a second request, whose 200 answer it returns; and
  when every answer is 404 it sends three requests, with two delays, before it fails.
\<close>

theorem fetchWithRetry_retries_404:
  "fetchWithRetry (script [reply 404 ''Not Found'', reply 200 ''{}'']) 3 1000 world0 =
     (Inr \<lparr> resp_status = 200, resp_text = ''{}'', resp_json = Inl ''Unexpected token'' \<rparr>,
      \<lparr> calls = 2, trace = [Fetch, Sleep 1000, Fetch] \<rparr>)
   \<and> fetchWithRetry (script [reply 404 ''Not Found'', reply 404 ''Not Found'', reply 404 ''Not Found''])
        3 1000 world0 =
     (Inl (OtherError ''API error 404: Not Found''),
      \<lparr> calls = 3, trace = [Fetch, Sleep 1000, Fetch, Sleep 2000, Fetch] \<rparr>)"
proof -
  have n: "string_of_nat 404 = ''404''"
    by code_simp
  show ?thesis
    by (simp add: fetchWithRetry_def fetchWithRetry_from.simps [of _ 3] script_def reply_def
          world0_def ok_def emit_def sleep_def Let_def n del: string_of_nat.simps)
qed

section \<open>Retry around the tool executors\<close>



section \<open>Order of the steps\<close>

text \<open>
  C4. \<^verbatim>\<open>PlanningAgent.run\<close> runs the four tool steps in the fixed order
  analyze, generate, identify, determine, each under the retry, and stops at the first
  step whose retries are exhausted. If the analysis step fails with \<open>e\<close>, the run fails
  with \<open>e\<close> in step \<open>analyze_complexity\<close> and only the analysis executor was ever
  started. If it succeeds and step generation fails with \<open>e\<close>, the run fails with \<open>e\<close>
  in step \<open>generate_steps\<close>, in the world that step left, and the executors started
  are the analysis one (at least once) and then the generation one, nothing else; likewise
  for risk identification and for the next action. If all four succeed the result is the
  final validation of the assembled response and each executor was started at least once
  and at most the retry limit, in that order.
\<close>

theorem run_fixed_order_fail_fast:
  "(executeWithRetry (maxRetries st)
      (executeAnalyzeComplexity pf cfg (goal (input st)) (priority (input st))) w = (Inl e, w1) \<longrightarrow>
      run pf cfg st w = (Inl e, st\<lparr>currentStep := ''analyze_complexity''\<rparr>, w1)
      \<and> (\<exists>a. a \<le> maxRetries st
            \<and> tool_events (trace w1) =
                tool_events (trace w) @ replicate a ''analyze_goal_complexity''))
   \<and> (executeWithRetry (maxRetries st)
        (executeAnalyzeComplexity pf cfg (goal (input st)) (priority (input st))) w = (Inr ga, w1) \<longrightarrow>
      (executeWithRetry (maxRetries st)
         (executeGenerateSteps pf cfg (goal (input st)) (complexity ga) (timeAvailable (input st))) w1
         = (Inl e, w2) \<longrightarrow>
         fst (run pf cfg st w) = Inl e
         \<and> currentStep (fst (snd (run pf cfg st w))) = ''generate_steps''
         \<and> snd (snd (run pf cfg st w)) = w2
         \<and> (\<exists>a b. 0 < a \<and> a \<le> maxRetries st \<and> b \<le> maxRetries st
               \<and> tool_events (trace w2) =
                   tool_events (trace w) @ replicate a ''analyze_goal_complexity''
                     @ replicate b ''generate_action_steps''))
      \<and> (executeWithRetry (maxRetries st)
           (executeGenerateSteps pf cfg (goal (input st)) (complexity ga) (timeAvailable (input st))) w1
           = (Inr (steps, totalTime), w2) \<longrightarrow>
         (executeWithRetry (maxRetries st)
            (executeIdentifyRisks pf cfg (goal (input st)) steps) w2 = (Inl e, w3) \<longrightarrow>
            fst (run pf cfg st w) = Inl e
            \<and> currentStep (fst (snd (run pf cfg st w))) = ''identify_risks''
            \<and> snd (snd (run pf cfg st w)) = w3
            \<and> (\<exists>a b c. 0 < a \<and> a \<le> maxRetries st \<and> 0 < b \<and> b \<le> maxRetries st
                  \<and> c \<le> maxRetries st
                  \<and> tool_events (trace w3) =
                      tool_events (trace w) @ replicate a ''analyze_goal_complexity''
                        @ replicate b ''generate_action_steps'' @ replicate c ''identify_risks''))
         \<and> (executeWithRetry (maxRetries st)
              (executeIdentifyRisks pf cfg (goal (input st)) steps) w2 = (Inr rs, w3) \<longrightarrow>
            (executeWithRetry (maxRetries st)
               (executeDetermineNextAction pf cfg steps (priority (input st))) w3 = (Inl e, w4) \<longrightarrow>
               fst (run pf cfg st w) = Inl e
               \<and> currentStep (fst (snd (run pf cfg st w))) = ''determine_next_action''
               \<and> snd (snd (run pf cfg st w)) = w4)
            \<and> (executeWithRetry (maxRetries st)
                 (executeDetermineNextAction pf cfg steps (priority (input st))) w3 = (Inr na, w4) \<longrightarrow>
               fst (run pf cfg st w) =
                 validateFullResponse (JObj (partialResponse (fst (snd (run pf cfg st w)))))
               \<and> currentStep (fst (snd (run pf cfg st w))) = ''validate_output''
               \<and> snd (snd (run pf cfg st w)) = w4
               \<and> (\<exists>a b c d. 0 < a \<and> a \<le> maxRetries st \<and> 0 < b \<and> b \<le> maxRetries st
                     \<and> 0 < c \<and> c \<le> maxRetries st \<and> 0 < d \<and> d \<le> maxRetries st
                     \<and> tool_events (trace w4) =
                         tool_events (trace w) @ replicate a ''analyze_goal_complexity''
                           @ replicate b ''generate_action_steps'' @ replicate c ''identify_risks''
                           @ replicate d ''determine_next_action'')))))"
proof -
  let ?m = "maxRetries st"
  let ?A = "executeAnalyzeComplexity pf cfg (goal (input st)) (priority (input st))"
  let ?G = "executeGenerateSteps pf cfg (goal (input st)) (complexity ga) (timeAvailable (input st))"
  let ?R = "executeIdentifyRisks pf cfg (goal (input st)) steps"
  let ?N = "executeDetermineNextAction pf cfg steps (priority (input st))"
  have c1: "run pf cfg st w = (Inl e, st\<lparr>currentStep := ''analyze_complexity''\<rparr>, w1)
      \<and> (\<exists>a. a \<le> ?m
            \<and> tool_events (trace w1) =
                tool_events (trace w) @ replicate a ''analyze_goal_complexity'')"
    if a: "executeWithRetry ?m ?A w = (Inl e, w1)"
  proof -
    from retry_events [OF executeAnalyzeComplexity_world a]
    have "\<exists>a. a \<le> ?m \<and> tool_events (trace w1) =
                tool_events (trace w) @ replicate a ''analyze_goal_complexity''"
      by blast
    moreover have "run pf cfg st w = (Inl e, st\<lparr>currentStep := ''analyze_complexity''\<rparr>, w1)"
      using a by (simp add: run_def Let_def)
    ultimately show ?thesis by simp
  qed
  have c2: "fst (run pf cfg st w) = Inl e
         \<and> currentStep (fst (snd (run pf cfg st w))) = ''generate_steps''
         \<and> snd (snd (run pf cfg st w)) = w2
         \<and> (\<exists>a b. 0 < a \<and> a \<le> ?m \<and> b \<le> ?m
               \<and> tool_events (trace w2) =
                   tool_events (trace w) @ replicate a ''analyze_goal_complexity''
                     @ replicate b ''generate_action_steps'')"
    if a: "executeWithRetry ?m ?A w = (Inr ga, w1)" and g: "executeWithRetry ?m ?G w1 = (Inl e, w2)"
  proof -
    from retry_events [OF executeAnalyzeComplexity_world a]
    obtain ka where ka: "0 < ka" "ka \<le> ?m"
      "tool_events (trace w1) = tool_events (trace w) @ replicate ka ''analyze_goal_complexity''"
      by auto
    from retry_events [OF executeGenerateSteps_world g]
    obtain kb where kb: "kb \<le> ?m"
      "tool_events (trace w2) = tool_events (trace w1) @ replicate kb ''generate_action_steps''"
      by auto
    have "\<exists>a b. 0 < a \<and> a \<le> ?m \<and> b \<le> ?m
               \<and> tool_events (trace w2) =
                   tool_events (trace w) @ replicate a ''analyze_goal_complexity''
                     @ replicate b ''generate_action_steps''"
      using ka kb by (intro exI [of _ ka] exI [of _ kb]) simp
    moreover have "fst (run pf cfg st w) = Inl e
         \<and> currentStep (fst (snd (run pf cfg st w))) = ''generate_steps''
         \<and> snd (snd (run pf cfg st w)) = w2"
      using a g by (simp add: run_def Let_def)
    ultimately show ?thesis by simp
  qed
  have c3: "fst (run pf cfg st w) = Inl e
            \<and> currentStep (fst (snd (run pf cfg st w))) = ''identify_risks''
            \<and> snd (snd (run pf cfg st w)) = w3
            \<and> (\<exists>a b c. 0 < a \<and> a \<le> ?m \<and> 0 < b \<and> b \<le> ?m \<and> c \<le> ?m
                  \<and> tool_events (trace w3) =
                      tool_events (trace w) @ replicate a ''analyze_goal_complexity''
                        @ replicate b ''generate_action_steps'' @ replicate c ''identify_risks'')"
    if a: "executeWithRetry ?m ?A w = (Inr ga, w1)"
      and g: "executeWithRetry ?m ?G w1 = (Inr (steps, totalTime), w2)"
      and r: "executeWithRetry ?m ?R w2 = (Inl e, w3)"
  proof -
    from retry_events [OF executeAnalyzeComplexity_world a]
    obtain ka where ka: "0 < ka" "ka \<le> ?m"
      "tool_events (trace w1) = tool_events (trace w) @ replicate ka ''analyze_goal_complexity''"
      by auto
    from retry_events [OF executeGenerateSteps_world g]
    obtain kb where kb: "0 < kb" "kb \<le> ?m"
      "tool_events (trace w2) = tool_events (trace w1) @ replicate kb ''generate_action_steps''"
      by auto
    from retry_events [OF executeIdentifyRisks_world r]
    obtain kc where kc: "kc \<le> ?m"
      "tool_events (trace w3) = tool_events (trace w2) @ replicate kc ''identify_risks''"
      by auto
    have "\<exists>a b c. 0 < a \<and> a \<le> ?m \<and> 0 < b \<and> b \<le> ?m \<and> c \<le> ?m
                  \<and> tool_events (trace w3) =
                      tool_events (trace w) @ replicate a ''analyze_goal_complexity''
                        @ replicate b ''generate_action_steps'' @ replicate c ''identify_risks''"
      using ka kb kc by (intro exI [of _ ka] exI [of _ kb] exI [of _ kc]) simp
    moreover have "fst (run pf cfg st w) = Inl e
            \<and> currentStep (fst (snd (run pf cfg st w))) = ''identify_risks''
            \<and> snd (snd (run pf cfg st w)) = w3"
      using a g r by (simp add: run_def Let_def)
    ultimately show ?thesis by simp
  qed
  have c4: "fst (run pf cfg st w) = Inl e
               \<and> currentStep (fst (snd (run pf cfg st w))) = ''determine_next_action''
               \<and> snd (snd (run pf cfg st w)) = w4"
    if a: "executeWithRetry ?m ?A w = (Inr ga, w1)"
      and g: "executeWithRetry ?m ?G w1 = (Inr (steps, totalTime), w2)"
      and r: "executeWithRetry ?m ?R w2 = (Inr rs, w3)"
      and n: "executeWithRetry ?m ?N w3 = (Inl e, w4)"
    using a g r n by (simp add: run_def Let_def)
  have c5: "fst (run pf cfg st w) =
                 validateFullResponse (JObj (partialResponse (fst (snd (run pf cfg st w)))))
               \<and> currentStep (fst (snd (run pf cfg st w))) = ''validate_output''
               \<and> snd (snd (run pf cfg st w)) = w4
               \<and> (\<exists>a b c d. 0 < a \<and> a \<le> ?m \<and> 0 < b \<and> b \<le> ?m
                     \<and> 0 < c \<and> c \<le> ?m \<and> 0 < d \<and> d \<le> ?m
                     \<and> tool_events (trace w4) =
                         tool_events (trace w) @ replicate a ''analyze_goal_complexity''
                           @ replicate b ''generate_action_steps'' @ replicate c ''identify_risks''
                           @ replicate d ''determine_next_action'')"
    if a: "executeWithRetry ?m ?A w = (Inr ga, w1)"
      and g: "executeWithRetry ?m ?G w1 = (Inr (steps, totalTime), w2)"
      and r: "executeWithRetry ?m ?R w2 = (Inr rs, w3)"
      and n: "executeWithRetry ?m ?N w3 = (Inr na, w4)"
  proof -
    from retry_events [OF executeAnalyzeComplexity_world a]
    obtain ka where ka: "0 < ka" "ka \<le> ?m"
      "tool_events (trace w1) = tool_events (trace w) @ replicate ka ''analyze_goal_complexity''"
      by auto
    from retry_events [OF executeGenerateSteps_world g]
    obtain kb where kb: "0 < kb" "kb \<le> ?m"
      "tool_events (trace w2) = tool_events (trace w1) @ replicate kb ''generate_action_steps''"
      by auto
    from retry_events [OF executeIdentifyRisks_world r]
    obtain kc where kc: "0 < kc" "kc \<le> ?m"
      "tool_events (trace w3) = tool_events (trace w2) @ replicate kc ''identify_risks''"
      by auto
    from retry_events [OF executeDetermineNextAction_world n]
    obtain kd where kd: "0 < kd" "kd \<le> ?m"
      "tool_events (trace w4) = tool_events (trace w3) @ replicate kd ''determine_next_action''"
      by auto
    have "\<exists>a b c d. 0 < a \<and> a \<le> ?m \<and> 0 < b \<and> b \<le> ?m
                     \<and> 0 < c \<and> c \<le> ?m \<and> 0 < d \<and> d \<le> ?m
                     \<and> tool_events (trace w4) =
                         tool_events (trace w) @ replicate a ''analyze_goal_complexity''
                           @ replicate b ''generate_action_steps'' @ replicate c ''identify_risks''
                           @ replicate d ''determine_next_action''"
      using ka kb kc kd by (intro exI [of _ ka] exI [of _ kb] exI [of _ kc] exI [of _ kd]) simp
    moreover have "fst (run pf cfg st w) =
                 validateFullResponse (JObj (partialResponse (fst (snd (run pf cfg st w)))))
               \<and> currentStep (fst (snd (run pf cfg st w))) = ''validate_output''
               \<and> snd (snd (run pf cfg st w)) = w4"
      using a g r n by (simp add: run_def Let_def)
    ultimately show ?thesis by simp
  qed
  from c1 c2 c3 c4 c5 show ?thesis by blast
qed

theorem run_fixed_order_fail_fast_witness:
  "run (failing_platform ''analyze_goal_complexity'') sample_config (createAgentState sample_input) world0 =
     (Inl (OtherError ''LLM API error 500: upstream down''),
      (createAgentState sample_input)\<lparr>currentStep := ''analyze_complexity''\<rparr>,
      \<lparr> calls = 3,
        trace = [ToolExec ''analyze_goal_complexity'', Fetch, Sleep 1000,
                 ToolExec ''analyze_goal_complexity'', Fetch, Sleep 2000,
                 ToolExec ''analyze_goal_complexity'', Fetch] \<rparr>)
   \<and> (fst (run (failing_platform ''generate_action_steps'') sample_config
              (createAgentState sample_input) world0)
         = Inl (OtherError ''LLM API error 500: upstream down'')
       \<and> currentStep (fst (snd (run (failing_platform ''generate_action_steps'') sample_config
              (createAgentState sample_input) world0))) = ''generate_steps''
       \<and> snd (snd (run (failing_platform ''generate_action_steps'') sample_config
              (createAgentState sample_input) world0))
         = \<lparr> calls = 4,
             trace = [ToolExec ''analyze_goal_complexity'', Fetch,
                      ToolExec ''generate_action_steps'', Fetch, Sleep 1000,
                      ToolExec ''generate_action_steps'', Fetch, Sleep 2000,
                      ToolExec ''generate_action_steps'', Fetch] \<rparr>)
   \<and> (fst (run (failing_platform ''identify_risks'') sample_config
              (createAgentState sample_input) world0)
         = Inl (OtherError ''LLM API error 500: upstream down'')
       \<and> currentStep (fst (snd (run (failing_platform ''identify_risks'') sample_config
              (createAgentState sample_input) world0))) = ''identify_risks''
       \<and> snd (snd (run (failing_platform ''identify_risks'') sample_config
              (createAgentState sample_input) world0))
         = \<lparr> calls = 5,
             trace = [ToolExec ''analyze_goal_complexity'', Fetch,
                      ToolExec ''generate_action_steps'', Fetch,
                      ToolExec ''identify_risks'', Fetch, Sleep 1000,
                      ToolExec ''identify_risks'', Fetch, Sleep 2000,
                      ToolExec ''identify_risks'', Fetch] \<rparr>)
   \<and> (fst (run (failing_platform ''determine_next_action'') sample_config
              (createAgentState sample_input) world0)
         = Inl (OtherError ''LLM API error 500: upstream down'')
       \<and> currentStep (fst (snd (run (failing_platform ''determine_next_action'') sample_config
              (createAgentState sample_input) world0))) = ''determine_next_action''
       \<and> snd (snd (run (failing_platform ''determine_next_action'') sample_config
              (createAgentState sample_input) world0))
         = \<lparr> calls = 6,
             trace = [ToolExec ''analyze_goal_complexity'', Fetch,
                      ToolExec ''generate_action_steps'', Fetch,
                      ToolExec ''identify_risks'', Fetch,
                      ToolExec ''determine_next_action'', Fetch, Sleep 1000,
                      ToolExec ''determine_next_action'', Fetch, Sleep 2000,
                      ToolExec ''determine_next_action'', Fetch] \<rparr>)
   \<and> (currentStep (fst (snd (run (failing_platform ''none'') sample_config
              (createAgentState sample_input) world0))) = ''validate_output''
       \<and> snd (snd (run (failing_platform ''none'') sample_config
              (createAgentState sample_input) world0))
         = \<lparr> calls = 4,
             trace = [ToolExec ''analyze_goal_complexity'', Fetch,
                      ToolExec ''generate_action_steps'', Fetch,
                      ToolExec ''identify_risks'', Fetch,
                      ToolExec ''determine_next_action'', Fetch] \<rparr>)"
proof -
  let ?e = "OtherError ''LLM API error 500: upstream down''"
  let ?st = "createAgentState sample_input"
  let ?wA = "invoked ''analyze_goal_complexity'' world0"
  let ?wG = "invoked ''generate_action_steps'' ?wA"
  let ?wR = "invoked ''identify_risks'' ?wG"
  let ?wN = "invoked ''determine_next_action'' ?wR"
  have 1: "run (failing_platform ''analyze_goal_complexity'') sample_config ?st world0 =
     (Inl ?e, ?st\<lparr>currentStep := ''analyze_complexity''\<rparr>,
      \<lparr> calls = 3,
        trace = [ToolExec ''analyze_goal_complexity'', Fetch, Sleep 1000,
                 ToolExec ''analyze_goal_complexity'', Fetch, Sleep 2000,
                 ToolExec ''analyze_goal_complexity'', Fetch] \<rparr>)"
    using run_fixed_order_fail_fast
      [where st = ?st and pf = "failing_platform ''analyze_goal_complexity''"
         and cfg = sample_config and w = world0 and e = ?e
         and ga = sample_analysis and steps = "[sample_step]" and totalTime = "''Varies''"
         and rs = "[sample_risk]" and na = sample_action
         and ?w1.0 = "invoked ''analyze_goal_complexity'' (sleep 2000 (invoked ''analyze_goal_complexity''
                     (sleep 1000 ?wA)))"
         and ?w2.0 = world0 and ?w3.0 = world0 and ?w4.0 = world0]
    by (simp add: retry_analyze createAgentState_def invoked_def sleep_def world0_def)
  have 2: "fst (run (failing_platform ''generate_action_steps'') sample_config ?st world0) = Inl ?e
       \<and> currentStep (fst (snd (run (failing_platform ''generate_action_steps'') sample_config
              ?st world0))) = ''generate_steps''
       \<and> snd (snd (run (failing_platform ''generate_action_steps'') sample_config ?st world0))
         = \<lparr> calls = 4,
             trace = [ToolExec ''analyze_goal_complexity'', Fetch,
                      ToolExec ''generate_action_steps'', Fetch, Sleep 1000,
                      ToolExec ''generate_action_steps'', Fetch, Sleep 2000,
                      ToolExec ''generate_action_steps'', Fetch] \<rparr>"
    using run_fixed_order_fail_fast
      [where st = ?st and pf = "failing_platform ''generate_action_steps''"
         and cfg = sample_config and w = world0 and e = ?e
         and ga = sample_analysis and steps = "[sample_step]" and totalTime = "''Varies''"
         and rs = "[sample_risk]" and na = sample_action
         and ?w1.0 = ?wA
         and ?w2.0 = "invoked ''generate_action_steps'' (sleep 2000 (invoked ''generate_action_steps''
                     (sleep 1000 ?wG)))"
         and ?w3.0 = world0 and ?w4.0 = world0]
    by (simp add: retry_analyze retry_steps createAgentState_def invoked_def sleep_def world0_def)
  have 3: "fst (run (failing_platform ''identify_risks'') sample_config ?st world0) = Inl ?e
       \<and> currentStep (fst (snd (run (failing_platform ''identify_risks'') sample_config
              ?st world0))) = ''identify_risks''
       \<and> snd (snd (run (failing_platform ''identify_risks'') sample_config ?st world0))
         = \<lparr> calls = 5,
             trace = [ToolExec ''analyze_goal_complexity'', Fetch,
                      ToolExec ''generate_action_steps'', Fetch,
                      ToolExec ''identify_risks'', Fetch, Sleep 1000,
                      ToolExec ''identify_risks'', Fetch, Sleep 2000,
                      ToolExec ''identify_risks'', Fetch] \<rparr>"
    using run_fixed_order_fail_fast
      [where st = ?st and pf = "failing_platform ''identify_risks''"
         and cfg = sample_config and w = world0 and e = ?e
         and ga = sample_analysis and steps = "[sample_step]" and totalTime = "''Varies''"
         and rs = "[sample_risk]" and na = sample_action
         and ?w1.0 = ?wA and ?w2.0 = ?wG
         and ?w3.0 = "invoked ''identify_risks'' (sleep 2000 (invoked ''identify_risks''
                     (sleep 1000 ?wR)))"
         and ?w4.0 = world0]
    by (simp add: retry_analyze retry_steps retry_risks createAgentState_def invoked_def sleep_def
          world0_def)
  have 4: "fst (run (failing_platform ''determine_next_action'') sample_config ?st world0) = Inl ?e
       \<and> currentStep (fst (snd (run (failing_platform ''determine_next_action'') sample_config
              ?st world0))) = ''determine_next_action''
       \<and> snd (snd (run (failing_platform ''determine_next_action'') sample_config ?st world0))
         = \<lparr> calls = 6,
             trace = [ToolExec ''analyze_goal_complexity'', Fetch,
                      ToolExec ''generate_action_steps'', Fetch,
                      ToolExec ''identify_risks'', Fetch,
                      ToolExec ''determine_next_action'', Fetch, Sleep 1000,
                      ToolExec ''determine_next_action'', Fetch, Sleep 2000,
                      ToolExec ''determine_next_action'', Fetch] \<rparr>"
    using run_fixed_order_fail_fast
      [where st = ?st and pf = "failing_platform ''determine_next_action''"
         and cfg = sample_config and w = world0 and e = ?e
         and ga = sample_analysis and steps = "[sample_step]" and totalTime = "''Varies''"
         and rs = "[sample_risk]" and na = sample_action
         and ?w1.0 = ?wA and ?w2.0 = ?wG and ?w3.0 = ?wR
         and ?w4.0 = "invoked ''determine_next_action'' (sleep 2000 (invoked ''determine_next_action''
                     (sleep 1000 ?wN)))"]
    by (simp add: retry_analyze retry_steps retry_risks retry_action createAgentState_def
          invoked_def sleep_def world0_def)
  have 5: "currentStep (fst (snd (run (failing_platform ''none'') sample_config ?st world0)))
             = ''validate_output''
       \<and> snd (snd (run (failing_platform ''none'') sample_config ?st world0))
         = \<lparr> calls = 4,
             trace = [ToolExec ''analyze_goal_complexity'', Fetch,
                      ToolExec ''generate_action_steps'', Fetch,
                      ToolExec ''identify_risks'', Fetch,
                      ToolExec ''determine_next_action'', Fetch] \<rparr>"
    using run_fixed_order_fail_fast
      [where st = ?st and pf = "failing_platform ''none''"
         and cfg = sample_config and w = world0 and e = ?e
         and ga = sample_analysis and steps = "[sample_step]" and totalTime = "''Varies''"
         and rs = "[sample_risk]" and na = sample_action
         and ?w1.0 = ?wA and ?w2.0 = ?wG and ?w3.0 = ?wR and ?w4.0 = ?wN]
    by (simp add: retry_analyze retry_steps retry_risks retry_action createAgentState_def
          invoked_def sleep_def world0_def)
  from 1 2 3 4 5 show ?thesis by blast
qed

section \<open>Only validated responses leave the pipeline\<close>




section \<open>Status codes of the handler\<close>

text \<open>
  C2 as stated fails. The request body is valid, so input validation succeeds; the gateway
  answers every call with status 200 and an empty JSON object, so the analysis fragment
  fails its validation at each of the three attempts; and the handler answers 400 with
  \<open>VALIDATION_ERROR\<close> and the field \<open>goalAnalysis.summary\<close>, not 500.
\<close>

theorem serve_post_hoc_validation_is_400:
  "validateInput (JObj [(''goal'', JStr ''Learn guitar basics''), (''priority'', JStr ''medium'')])
     = Inr sample_input
   \<and> req_json sample_request
     = Inr (JObj [(''goal'', JStr ''Learn guitar basics''), (''priority'', JStr ''medium'')])
   \<and> fst (serve empty_platform sample_request world0) =
       \<lparr> http_status = 400,
         http_body = ErrorBody ''VALIDATION_ERROR''
           (message (ValidationError ''goalAnalysis.summary'' ''Must be a meaningful summary''))
           (Some ''goalAnalysis.summary'') \<rparr>"
proof -
  have s: "serve empty_platform sample_request world0 =
           (case run empty_platform
                   \<lparr> apiKey = ''secret'', model = ''google/gemini-3-flash-preview'',
                     temperature = 7 / 10, maxTokens = 1500 \<rparr> (createAgentState sample_input) world0 of
              (Inl e, st, w1) \<Rightarrow> (errorResponse e, w1)
            | (Inr result, st, w1) \<Rightarrow> (\<lparr> http_status = 200, http_body = PlanBody (stringified (response_obj result)) \<rparr>, w1))"
    using serve_runs [of sample_request _ sample_input empty_platform "''secret''" world0]
    by (simp add: sample_request_def sample_request_valid platform_fields)
  obtain r st w1 where run: "run empty_platform
                   \<lparr> apiKey = ''secret'', model = ''google/gemini-3-flash-preview'',
                     temperature = 7 / 10, maxTokens = 1500 \<rparr> (createAgentState sample_input) world0
                   = (r, st, w1)"
    using prod_cases3 by blast
  have "fst (run empty_platform
                   \<lparr> apiKey = ''secret'', model = ''google/gemini-3-flash-preview'',
                     temperature = 7 / 10, maxTokens = 1500 \<rparr> (createAgentState sample_input) world0)
          = Inl (ValidationError ''goalAnalysis.summary'' ''Must be a meaningful summary'')"
    by (rule empty_run)
  then have "r = Inl (ValidationError ''goalAnalysis.summary'' ''Must be a meaningful summary'')"
    by (simp add: run)
  with s run have "fst (serve empty_platform sample_request world0) =
       \<lparr> http_status = 400,
         http_body = ErrorBody ''VALIDATION_ERROR''
           (message (ValidationError ''goalAnalysis.summary'' ''Must be a meaningful summary''))
           (Some ''goalAnalysis.summary'') \<rparr>"
    by (simp add: errorResponse_def)
  then show ?thesis by (simp add: sample_request_valid sample_request_def)
qed

text \<open>
  C2, amended. The handler tells failures apart only by the class of the error that
  reaches its \<^verbatim>\<open>catch\<close>. Once input validation has succeeded and the key is
  configured, a run that fails with a \<open>ValidationError\<close> (raised while validating a
  tool fragment, after the retries of the step, or the assembled response) is answered
  with 400, \<open>VALIDATION_ERROR\<close> and the field of the error, and a run that fails with any
  other error with 500 and \<open>AGENT_ERROR\<close>. A failure of input validation is a
  \<open>ValidationError\<close> and is answered with 400 and its field; a request body that is not
  JSON and a missing API key are answered with 500 and \<open>AGENT_ERROR\<close>.
\<close>

theorem serve_error_mapping:
  "(req_method req \<noteq> ''OPTIONS'' \<and> req_json req = Inr body \<and> validateInput body = Inr inp
      \<and> LOVABLE_API_KEY pf = Some key \<and> key \<noteq> []
      \<and> fst (run pf \<lparr> apiKey = key, model = ''google/gemini-3-flash-preview'',
                       temperature = 7 / 10, maxTokens = 1500 \<rparr> (createAgentState inp) w) = Inl e \<longrightarrow>
        (\<forall>field m. e = ValidationError field m \<longrightarrow>
           fst (serve pf req w) =
             \<lparr> http_status = 400,
               http_body = ErrorBody ''VALIDATION_ERROR'' (message e) (Some field) \<rparr>)
        \<and> (\<forall>m. e = OtherError m \<longrightarrow>
           fst (serve pf req w) =
             \<lparr> http_status = 500, http_body = ErrorBody ''AGENT_ERROR'' m None \<rparr>))
   \<and> (req_method req \<noteq> ''OPTIONS'' \<and> req_json req = Inr body \<and> validateInput body = Inl e \<longrightarrow>
        (\<exists>field m. e = ValidationError field m
           \<and> fst (serve pf req w) =
               \<lparr> http_status = 400,
                 http_body = ErrorBody ''VALIDATION_ERROR'' (message e) (Some field) \<rparr>))
   \<and> (req_method req \<noteq> ''OPTIONS'' \<and> req_json req = Inl m \<longrightarrow>
        fst (serve pf req w) =
          \<lparr> http_status = 500, http_body = ErrorBody ''AGENT_ERROR'' m None \<rparr>)
   \<and> (req_method req \<noteq> ''OPTIONS'' \<and> req_json req = Inr body \<and> validateInput body = Inr inp
        \<and> (LOVABLE_API_KEY pf = None \<or> LOVABLE_API_KEY pf = Some []) \<longrightarrow>
        serve pf req w =
          (\<lparr> http_status = 500,
             http_body = ErrorBody ''AGENT_ERROR'' ''Lovable AI key is not configured'' None \<rparr>, w))"
proof (intro conjI impI allI)
  fix field m
  assume h: "req_method req \<noteq> ''OPTIONS'' \<and> req_json req = Inr body \<and> validateInput body = Inr inp
      \<and> LOVABLE_API_KEY pf = Some key \<and> key \<noteq> []
      \<and> fst (run pf \<lparr> apiKey = key, model = ''google/gemini-3-flash-preview'',
                       temperature = 7 / 10, maxTokens = 1500 \<rparr> (createAgentState inp) w) = Inl e"
  then have s: "serve pf req w =
           (case run pf \<lparr> apiKey = key, model = ''google/gemini-3-flash-preview'',
                          temperature = 7 / 10, maxTokens = 1500 \<rparr> (createAgentState inp) w of
              (Inl e, st, w1) \<Rightarrow> (errorResponse e, w1)
            | (Inr result, st, w1) \<Rightarrow> (\<lparr> http_status = 200, http_body = PlanBody (stringified (response_obj result)) \<rparr>, w1))"
    by (simp add: serve_runs)
  from h have f: "fst (serve pf req w) = errorResponse e"
    unfolding s by (auto split: prod.splits sum.splits)
  {
    assume "e = ValidationError field m"
    with f show "fst (serve pf req w) =
             \<lparr> http_status = 400,
               http_body = ErrorBody ''VALIDATION_ERROR'' (message e) (Some field) \<rparr>"
      by (simp add: errorResponse_def)
  }
  {
    assume "e = OtherError m"
    with f show "fst (serve pf req w) =
             \<lparr> http_status = 500, http_body = ErrorBody ''AGENT_ERROR'' m None \<rparr>"
      by (simp add: errorResponse_def)
  }
next
  assume h: "req_method req \<noteq> ''OPTIONS'' \<and> req_json req = Inr body \<and> validateInput body = Inl e"
  then have "isValidationError e" using validateInput_error by blast
  then obtain field m where e: "e = ValidationError field m" by (cases e) auto
  from h have "fst (serve pf req w) = errorResponse e" by (simp add: serve_def)
  with e show "\<exists>field m. e = ValidationError field m
           \<and> fst (serve pf req w) =
               \<lparr> http_status = 400,
                 http_body = ErrorBody ''VALIDATION_ERROR'' (message e) (Some field) \<rparr>"
    by (simp add: errorResponse_def)
next
  assume "req_method req \<noteq> ''OPTIONS'' \<and> req_json req = Inl m"
  then show "fst (serve pf req w) =
          \<lparr> http_status = 500, http_body = ErrorBody ''AGENT_ERROR'' m None \<rparr>"
    by (simp add: serve_def errorResponse_def)
next
  assume "req_method req \<noteq> ''OPTIONS'' \<and> req_json req = Inr body \<and> validateInput body = Inr inp
        \<and> (LOVABLE_API_KEY pf = None \<or> LOVABLE_API_KEY pf = Some [])"
  then show "serve pf req w =
          (\<lparr> http_status = 500,
             http_body = ErrorBody ''AGENT_ERROR'' ''Lovable AI key is not configured'' None \<rparr>, w)"
    by (auto simp: serve_def errorResponse_def)
qed

theorem serve_error_mapping_witness:
  "fst (serve empty_platform sample_request world0) =
     \<lparr> http_status = 400,
       http_body = ErrorBody ''VALIDATION_ERROR''
         (message (ValidationError ''goalAnalysis.summary'' ''Must be a meaningful summary''))
         (Some ''goalAnalysis.summary'') \<rparr>
   \<and> fst (serve (failing_platform ''generate_action_steps'') sample_request world0) =
     \<lparr> http_status = 500,
       http_body = ErrorBody ''AGENT_ERROR'' ''LLM API error 500: upstream down'' None \<rparr>
   \<and> fst (serve good_platform
            \<lparr> req_method = ''POST'',
              req_json = Inr (JObj [(''goal'', JStr []), (''priority'', JStr ''medium'')]) \<rparr> world0) =
     \<lparr> http_status = 400,
       http_body = ErrorBody ''VALIDATION_ERROR''
         (message (ValidationError ''goal'' ''Goal is required and must be a non-empty string''))
         (Some ''goal'') \<rparr>
   \<and> fst (serve good_platform
            \<lparr> req_method = ''POST'', req_json = Inl ''Unexpected end of JSON input'' \<rparr> world0) =
     \<lparr> http_status = 500,
       http_body = ErrorBody ''AGENT_ERROR'' ''Unexpected end of JSON input'' None \<rparr>
   \<and> serve (good_platform\<lparr> LOVABLE_API_KEY := None \<rparr>) sample_request world0 =
     (\<lparr> http_status = 500,
        http_body = ErrorBody ''AGENT_ERROR'' ''Lovable AI key is not configured'' None \<rparr>, world0)"
proof -
  let ?body = "JObj [(''goal'', JStr ''Learn guitar basics''), (''priority'', JStr ''medium'')]"
  let ?bad = "JObj [(''goal'', JStr []), (''priority'', JStr ''medium'')]"
  have v: "validateInput ?bad =
             Inl (ValidationError ''goal'' ''Goal is required and must be a non-empty string'')"
    by (simp add: validateInput_def trim_def)
  have 1: "fst (serve empty_platform sample_request world0) =
     \<lparr> http_status = 400,
       http_body = ErrorBody ''VALIDATION_ERROR''
         (message (ValidationError ''goalAnalysis.summary'' ''Must be a meaningful summary''))
         (Some ''goalAnalysis.summary'') \<rparr>"
    using serve_error_mapping
      [where req = sample_request and body = ?body and inp = sample_input and pf = empty_platform
         and key = "''secret''" and w = world0
         and e = "ValidationError ''goalAnalysis.summary'' ''Must be a meaningful summary''"
         and m = "[]"]
    by (simp add: sample_request_def sample_request_valid platform_fields empty_run)
  have 2: "fst (serve (failing_platform ''generate_action_steps'') sample_request world0) =
     \<lparr> http_status = 500,
       http_body = ErrorBody ''AGENT_ERROR'' ''LLM API error 500: upstream down'' None \<rparr>"
    using serve_error_mapping
      [where req = sample_request and body = ?body and inp = sample_input
         and pf = "failing_platform ''generate_action_steps''"
         and key = "''secret''" and w = world0
         and e = "OtherError ''LLM API error 500: upstream down''" and m = "[]"]
    by (simp add: sample_request_def sample_request_valid platform_fields failing_steps_run)
  have 3: "fst (serve good_platform \<lparr> req_method = ''POST'', req_json = Inr ?bad \<rparr> world0) =
     \<lparr> http_status = 400,
       http_body = ErrorBody ''VALIDATION_ERROR''
         (message (ValidationError ''goal'' ''Goal is required and must be a non-empty string''))
         (Some ''goal'') \<rparr>"
    using serve_error_mapping
      [where req = "\<lparr> req_method = ''POST'', req_json = Inr ?bad \<rparr>" and body = ?bad
         and inp = sample_input and pf = good_platform and key = "''secret''" and w = world0
         and e = "ValidationError ''goal'' ''Goal is required and must be a non-empty string''"
         and m = "[]"]
    by (simp add: v)
  have 4: "fst (serve good_platform
            \<lparr> req_method = ''POST'', req_json = Inl ''Unexpected end of JSON input'' \<rparr> world0) =
     \<lparr> http_status = 500,
       http_body = ErrorBody ''AGENT_ERROR'' ''Unexpected end of JSON input'' None \<rparr>"
    using serve_error_mapping
      [where req = "\<lparr> req_method = ''POST'', req_json = Inl ''Unexpected end of JSON input'' \<rparr>"
         and body = ?bad and inp = sample_input and pf = good_platform and key = "''secret''"
         and w = world0 and e = "OtherError []" and m = "''Unexpected end of JSON input''"]
    by simp
  have 5: "serve (good_platform\<lparr> LOVABLE_API_KEY := None \<rparr>) sample_request world0 =
     (\<lparr> http_status = 500,
        http_body = ErrorBody ''AGENT_ERROR'' ''Lovable AI key is not configured'' None \<rparr>, world0)"
    using serve_error_mapping
      [where req = sample_request and body = ?body and inp = sample_input
         and pf = "good_platform\<lparr> LOVABLE_API_KEY := None \<rparr>" and key = "''secret''"
         and w = world0 and e = "OtherError []" and m = "[]"]
    by (simp add: sample_request_def sample_request_valid)
  from 1 2 3 4 5 show ?thesis by blast
qed

section \<open>Action steps\<close>

text \<open>
  C9 as stated fails: a step whose \<open>stepNumber\<close> is 1.5, not an integer, is accepted.
\<close>

theorem validateActionStep_accepts_fraction:
  "validateActionStep
     (JObj [(''stepNumber'', JNum (Finite (3 / 2))), (''title'', JStr ''Practise''),
            (''description'', JStr ''Play scales''), (''estimatedTime'', JStr ''1 hour''),
            (''dependencies'', JArr [])]) 0
     = Inr \<lparr> stepNumber = Finite (3 / 2), step_title = ''Practise'', description = ''Play scales'',
             estimatedTime = ''1 hour'', dependencies = [] \<rparr>
   \<and> \<not> is_integer (Finite (3 / 2))"
proof -
  have "\<not> is_integer (Finite (3 / 2))" by code_simp
  then show ?thesis by (simp add: validateActionStep_def)
qed

text \<open>
  C9, amended. \<^verbatim>\<open>validateActionStep\<close> succeeds only if \<open>stepNumber\<close> is a number that
  is not less than 1 (a finite value of at least 1, integer or not, or the infinity of an
  overflowing literal), and the step it returns carries that number; a step object whose
  \<open>stepNumber\<close> is not a number, or is a number less than 1, is rejected with a
  \<open>ValidationError\<close> on \<open>actionSteps[i].stepNumber\<close>.
\<close>

theorem validateActionStep_stepNumber:
  "(validateActionStep step i = Inr s \<longrightarrow>
      (\<exists>n. getProp step ''stepNumber'' = JNum n \<and> stepNumber s = n
           \<and> (n = PosInf \<or> (\<exists>r. n = Finite r \<and> 1 \<le> r))))
   \<and> (\<not> falsy step \<and> typeof step = TObject
        \<and> (\<forall>n. getProp step ''stepNumber'' = JNum n \<longrightarrow> num_lt n 1) \<longrightarrow>
      validateActionStep step i =
        Inl (ValidationError (step_path i @ ''.stepNumber'') ''Must be a positive number''))"
proof (intro conjI impI)
  assume ok: "validateActionStep step i = Inr s"
  then obtain n where n: "getProp step ''stepNumber'' = JNum n"
    by (auto simp: validateActionStep_def typeof_number_iff split: if_splits)
  with ok have "\<not> num_lt n 1" and "stepNumber s = n"
    by (auto simp: validateActionStep_def split: if_splits)
  moreover from \<open>\<not> num_lt n 1\<close> have "n = PosInf \<or> (\<exists>r. n = Finite r \<and> 1 \<le> r)"
    by (cases n) auto
  ultimately show "\<exists>n. getProp step ''stepNumber'' = JNum n \<and> stepNumber s = n
           \<and> (n = PosInf \<or> (\<exists>r. n = Finite r \<and> 1 \<le> r))"
    using n by blast
next
  assume a: "\<not> falsy step \<and> typeof step = TObject
        \<and> (\<forall>n. getProp step ''stepNumber'' = JNum n \<longrightarrow> num_lt n 1)"
  show "validateActionStep step i =
        Inl (ValidationError (step_path i @ ''.stepNumber'') ''Must be a positive number'')"
  proof (cases "getProp step ''stepNumber''")
    case (JNum n)
    with a show ?thesis by (simp add: validateActionStep_def)
  qed (use a in \<open>simp_all add: validateActionStep_def\<close>)
qed

theorem validateActionStep_stepNumber_witness:
  "validateActionStep
     (JObj [(''stepNumber'', JNum (Finite 2)), (''title'', JStr ''Practise''),
            (''description'', JStr ''Play scales''), (''estimatedTime'', JStr ''1 hour''),
            (''dependencies'', JArr [])]) 1
     = Inr \<lparr> stepNumber = Finite 2, step_title = ''Practise'', description = ''Play scales'',
             estimatedTime = ''1 hour'', dependencies = [] \<rparr>
   \<and> (\<exists>r. Finite 2 = Finite r \<and> 1 \<le> r)
   \<and> validateActionStep (JObj [(''stepNumber'', JNum (Finite (1 / 2))), (''title'', JStr ''Practise'')]) 2
     = Inl (ValidationError ''actionSteps[2].stepNumber'' ''Must be a positive number'')
   \<and> validateActionStep (JObj [(''stepNumber'', JStr ''1''), (''title'', JStr ''Practise'')]) 2
     = Inl (ValidationError ''actionSteps[2].stepNumber'' ''Must be a positive number'')"
proof -
  have g: "validateActionStep
     (JObj [(''stepNumber'', JNum (Finite 2)), (''title'', JStr ''Practise''),
            (''description'', JStr ''Play scales''), (''estimatedTime'', JStr ''1 hour''),
            (''dependencies'', JArr [])]) 1
     = Inr \<lparr> stepNumber = Finite 2, step_title = ''Practise'', description = ''Play scales'',
             estimatedTime = ''1 hour'', dependencies = [] \<rparr>"
    by (simp add: validateActionStep_def)
  have p: "step_path 2 = ''actionSteps[2]''"
    by code_simp
  have 1: "\<exists>r. Finite 2 = Finite r \<and> 1 \<le> r"
    using validateActionStep_stepNumber
            [of "JObj [(''stepNumber'', JNum (Finite 2)), (''title'', JStr ''Practise''),
                       (''description'', JStr ''Play scales''), (''estimatedTime'', JStr ''1 hour''),
                       (''dependencies'', JArr [])]" 1
                "\<lparr> stepNumber = Finite 2, step_title = ''Practise'', description = ''Play scales'',
                   estimatedTime = ''1 hour'', dependencies = [] \<rparr>"] g
    by simp
  have 2: "validateActionStep (JObj [(''stepNumber'', JNum (Finite (1 / 2))), (''title'', JStr ''Practise'')]) 2
     = Inl (ValidationError ''actionSteps[2].stepNumber'' ''Must be a positive number'')"
    using validateActionStep_stepNumber
            [of "JObj [(''stepNumber'', JNum (Finite (1 / 2))), (''title'', JStr ''Practise'')]" 2]
    by (simp add: p del: string_of_nat.simps)
  have 3: "validateActionStep (JObj [(''stepNumber'', JStr ''1''), (''title'', JStr ''Practise'')]) 2
     = Inl (ValidationError ''actionSteps[2].stepNumber'' ''Must be a positive number'')"
    using validateActionStep_stepNumber
            [of "JObj [(''stepNumber'', JStr ''1''), (''title'', JStr ''Practise'')]" 2]
    by (simp add: p del: string_of_nat.simps)
  from g 1 2 3 show ?thesis by blast
qed

section \<open>Total time of the step fragment\<close>

text \<open>
  C10. When the gateway call of \<^verbatim>\<open>executeGenerateSteps\<close> succeeds, its content parses
  to a value whose \<open>steps\<close> member is an array of valid steps, and the \<open>totalTime\<close>
  member is missing or not a string, the executor does not fail: it returns the steps
  with the total time \<open>Varies\<close>. And a run can return a response whose
  \<open>totalEstimatedTime\<close> is \<open>Varies\<close>.
\<close>

theorem executeGenerateSteps_default_total_time:
  "(callLLM pf cfg (StepsRequest g c t) (emit (ToolExec ''generate_action_steps'') w)
        = (Inr (JStr content), w1)
      \<and> parseJSONResponse (JSON_parse pf) content = Inr parsed
      \<and> \<not> falsy parsed \<and> getProp parsed ''steps'' = JArr xs
      \<and> map_indexed validateActionStep xs 0 = Inr steps
      \<and> (\<forall>s. getProp parsed ''totalTime'' \<noteq> JStr s) \<longrightarrow>
        executeGenerateSteps pf cfg g c t w = (Inr (steps, ''Varies''), w1))
   \<and> (\<exists>pf cfg st w r st' w'.
         run pf cfg st w = (Inr r, st', w') \<and> totalEstimatedTime r = ''Varies'')"
proof (intro conjI impI)
  assume "callLLM pf cfg (StepsRequest g c t) (emit (ToolExec ''generate_action_steps'') w)
        = (Inr (JStr content), w1)
      \<and> parseJSONResponse (JSON_parse pf) content = Inr parsed
      \<and> \<not> falsy parsed \<and> getProp parsed ''steps'' = JArr xs
      \<and> map_indexed validateActionStep xs 0 = Inr steps
      \<and> (\<forall>s. getProp parsed ''totalTime'' \<noteq> JStr s)"
  then show "executeGenerateSteps pf cfg g c t w = (Inr (steps, ''Varies''), w1)"
    by (simp add: executeGenerateSteps_def parseContent_def typeof_string_iff)
next
  let ?run = "run (failing_platform ''none'') sample_config (createAgentState sample_input) world0"
  have "?run = (Inr sample_response, fst (snd ?run), snd (snd ?run))"
    by (simp add: prod_eq_iff good_run)
  moreover have "totalEstimatedTime sample_response = ''Varies''"
    by (simp add: sample_response_def)
  ultimately show "\<exists>pf cfg st w r st' w'.
         run pf cfg st w = (Inr r, st', w') \<and> totalEstimatedTime r = ''Varies''"
    by blast
qed

theorem executeGenerateSteps_default_total_time_witness:
  "getProp steps_value ''totalTime'' = JUndefined
   \<and> executeGenerateSteps good_platform sample_config ''Learn guitar basics'' ''simple'' None world0
       = (Inr ([sample_step], ''Varies''),
          \<lparr> calls = 1, trace = [ToolExec ''generate_action_steps'', Fetch] \<rparr>)
   \<and> fst (run (failing_platform ''none'') sample_config (createAgentState sample_input) world0)
       = Inr sample_response
   \<and> totalEstimatedTime sample_response = ''Varies''"
proof -
  let ?w1 = "\<lparr> calls = 1, trace = [ToolExec ''generate_action_steps'', Fetch] \<rparr>"
  have c: "callLLM good_platform sample_config (StepsRequest ''Learn guitar basics'' ''simple'' None)
             (emit (ToolExec ''generate_action_steps'') world0) = (Inr (JStr steps_text), ?w1)"
    using callLLM_chat_reply [of good_platform "emit (ToolExec ''generate_action_steps'') world0"
            sample_config "StepsRequest ''Learn guitar basics'' ''simple'' None" steps_text]
    by (simp add: platform_fields good_fetch texts_nonempty emit_def world0_def)
  have p: "parseJSONResponse (JSON_parse good_platform) steps_text = Inr steps_value"
    using parseContent_sample(3) [of good_platform]
    by (simp add: parseContent_def platform_fields)
  have s: "getProp steps_value ''steps'' =
             JArr [JObj [(''stepNumber'', JNum (Finite 1)), (''title'', JStr ''Buy a guitar''),
                         (''description'', JStr ''Pick a beginner instrument''),
                         (''estimatedTime'', JStr ''1 day''), (''dependencies'', JArr [])]]"
    by (simp add: steps_value_def)
  have v: "map_indexed validateActionStep
             [JObj [(''stepNumber'', JNum (Finite 1)), (''title'', JStr ''Buy a guitar''),
                    (''description'', JStr ''Pick a beginner instrument''),
                    (''estimatedTime'', JStr ''1 day''), (''dependencies'', JArr [])]] 0
           = Inr [sample_step]"
    by (simp add: validateActionStep_def sample_step_def)
  have u: "getProp steps_value ''totalTime'' = JUndefined"
    by (simp add: steps_value_def)
  have f: "\<not> falsy steps_value"
    by (simp add: steps_value_def)
  have 1: "executeGenerateSteps good_platform sample_config ''Learn guitar basics'' ''simple'' None world0
       = (Inr ([sample_step], ''Varies''), ?w1)"
    using executeGenerateSteps_default_total_time
            [where pf = good_platform and cfg = sample_config and g = "''Learn guitar basics''"
               and c = "''simple''" and t = None and w = world0 and content = steps_text
               and ?w1.0 = ?w1 and parsed = steps_value and steps = "[sample_step]"
               and xs = "[JObj [(''stepNumber'', JNum (Finite 1)), (''title'', JStr ''Buy a guitar''),
                    (''description'', JStr ''Pick a beginner instrument''),
                    (''estimatedTime'', JStr ''1 day''), (''dependencies'', JArr [])]]"]
          c p s v u f
    by simp
  from 1 u show ?thesis by (simp add: good_run sample_response_def)
qed

end
